theory Spec2Isabelle
  imports Complex_Main "HOL-Library.Stream"
begin

section \<open>Floating-point values\<close>

text \<open>
  The parameter arrays of \<^verbatim>\<open>GaussianOutputModel\<close> hold \<^verbatim>\<open>float64\<close> values: a finite
  value, which is a real number, one of the two infinities, or not-a-number. A zero is
  always the positive zero.
\<close>

datatype fl = Fin real | PInf | NInf | NaN

text \<open>
  Rounding to binary64, to nearest and ties to even. The unit in the last place of a
  real is \<open>2\<close> to the power of its binary exponent minus \<open>52\<close>, the exponent not below
  \<open>-1022\<close> (below it the values are subnormal and the unit stays \<open>2\<close> to the \<open>-1074\<close>).
  A real is rounded to the nearest multiple of its unit, to the even multiple when two
  are as near; what reaches \<open>2\<close> to the \<open>1024\<close> overflows to an infinity, and what rounds
  to the multiple \<open>0\<close> underflows to zero.
\<close>

definition rne :: "real \<Rightarrow> int" where
  "rne q =
     (let f = \<lfloor>q\<rfloor>; d = q - of_int f in
      if d < 1 / 2 then f
      else if 1 / 2 < d then f + 1
      else if even f then f else f + 1)"

definition ulp :: "real \<Rightarrow> real" where
  "ulp x = 2 powi (max \<lfloor>log 2 \<bar>x\<bar>\<rfloor> (- 1022) - 52)"

definition rnd :: "real \<Rightarrow> fl" where
  "rnd x =
     (if x = 0 then Fin 0
      else let y = of_int (rne (x / ulp x)) * ulp x in
        if 2 ^ 1024 \<le> \<bar>y\<bar> then (if 0 < x then PInf else NInf) else Fin y)"

text \<open>
  The arithmetic of IEEE 754, which is what numpy computes with: the special values as
  the standard gives them (a division by zero is an infinity or NaN and a warning, never
  an exception), and on finite values the exact result, rounded.
\<close>

fun fl_add :: "fl \<Rightarrow> fl \<Rightarrow> fl" where
  "fl_add NaN y = NaN"
| "fl_add x NaN = NaN"
| "fl_add PInf NInf = NaN"
| "fl_add NInf PInf = NaN"
| "fl_add PInf y = PInf"
| "fl_add x PInf = PInf"
| "fl_add NInf y = NInf"
| "fl_add x NInf = NInf"
| "fl_add (Fin a) (Fin b) = rnd (a + b)"

fun fl_neg :: "fl \<Rightarrow> fl" where
  "fl_neg NaN = NaN"
| "fl_neg PInf = NInf"
| "fl_neg NInf = PInf"
| "fl_neg (Fin a) = Fin (- a)"

definition fl_sub :: "fl \<Rightarrow> fl \<Rightarrow> fl" where
  "fl_sub x y = fl_add x (fl_neg y)"

fun fl_mul :: "fl \<Rightarrow> fl \<Rightarrow> fl" where
  "fl_mul NaN y = NaN"
| "fl_mul x NaN = NaN"
| "fl_mul PInf PInf = PInf"
| "fl_mul PInf NInf = NInf"
| "fl_mul NInf PInf = NInf"
| "fl_mul NInf NInf = PInf"
| "fl_mul PInf (Fin b) = (if b = 0 then NaN else if 0 < b then PInf else NInf)"
| "fl_mul NInf (Fin b) = (if b = 0 then NaN else if 0 < b then NInf else PInf)"
| "fl_mul (Fin a) PInf = (if a = 0 then NaN else if 0 < a then PInf else NInf)"
| "fl_mul (Fin a) NInf = (if a = 0 then NaN else if 0 < a then NInf else PInf)"
| "fl_mul (Fin a) (Fin b) = rnd (a * b)"

fun fl_div :: "fl \<Rightarrow> fl \<Rightarrow> fl" where
  "fl_div NaN y = NaN"
| "fl_div x NaN = NaN"
| "fl_div PInf PInf = NaN"
| "fl_div PInf NInf = NaN"
| "fl_div NInf PInf = NaN"
| "fl_div NInf NInf = NaN"
| "fl_div PInf (Fin b) = (if 0 \<le> b then PInf else NInf)"
| "fl_div NInf (Fin b) = (if 0 \<le> b then NInf else PInf)"
| "fl_div (Fin a) PInf = Fin 0"
| "fl_div (Fin a) NInf = Fin 0"
| "fl_div (Fin a) (Fin b) =
     (if b = 0 then (if a = 0 then NaN else if 0 < a then PInf else NInf)
      else rnd (a / b))"

fun fl_sqrt :: "fl \<Rightarrow> fl" where
  "fl_sqrt NaN = NaN"
| "fl_sqrt PInf = PInf"
| "fl_sqrt NInf = NaN"
| "fl_sqrt (Fin a) = (if a < 0 then NaN else rnd (sqrt a))"

text \<open>The comparison \<^verbatim>\<open><\<close>: every comparison with NaN is false.\<close>

fun fl_less :: "fl \<Rightarrow> fl \<Rightarrow> bool" where
  "fl_less NaN y = False"
| "fl_less x NaN = False"
| "fl_less x NInf = False"
| "fl_less PInf y = False"
| "fl_less NInf y = True"
| "fl_less x PInf = True"
| "fl_less (Fin a) (Fin b) = (a < b)"

fun is_finite :: "fl \<Rightarrow> bool" where
  "is_finite (Fin a) = True"
| "is_finite x = False"

text \<open>\<^verbatim>\<open>x ** 2\<close>, which numpy computes as the product of \<open>x\<close> with itself.\<close>

definition fl_sq :: "fl \<Rightarrow> fl" where
  "fl_sq x = fl_mul x x"

text \<open>The value of a Python integer that is not negative, in an operation with a float.\<close>

definition fl_of_nat :: "nat \<Rightarrow> fl" where
  "fl_of_nat n = rnd (real n)"

text \<open>\<^verbatim>\<open>np.finfo(np.float64).eps\<close>\<close>

definition eps :: real where
  "eps = 1 / 2 ^ 52"

text \<open>
  \<^verbatim>\<open>np.sum\<close> of a one-dimensional array; the sum of no value is \<open>0.0\<close>. The values
  are added from left to right, every addition rounded. numpy and the BLAS behind
  \<^verbatim>\<open>np.dot\<close> may add a long array in another order, which can change the last bits
  of a sum; no theorem below depends on the order.
\<close>

definition fl_sum :: "fl list \<Rightarrow> fl" where
  "fl_sum xs = foldl fl_add (Fin 0) xs"

text \<open>\<^verbatim>\<open>np.mean\<close> of a one-dimensional array: the sum over the number of values.\<close>

definition np_mean :: "fl list \<Rightarrow> fl" where
  "np_mean xs = fl_div (fl_sum xs) (fl_of_nat (length xs))"

section \<open>Errors and arrays\<close>

text \<open>
  The exceptions a call can end with. \<open>RuntimeError\<close> is the fitting error of
  \<^verbatim>\<open>fit\<close>, \<open>ValueError\<close> the validation error of the constructor; \<open>IndexError\<close>,
  \<open>TypeError\<close> and \<open>ValueError\<close> are also what Python and numpy raise on an index out
  of range, an object of the wrong type and arrays of shapes that do not fit.
\<close>

datatype error = ValueError | TypeError | IndexError | RuntimeError

text \<open>
  A numpy array as the constructor receives it: its shape and its elements in row-major
  order. A well-formed array has as many elements as its shape says.
\<close>

record ndarray =
  shape :: "nat list"
  data :: "fl list"

definition wf_ndarray :: "ndarray \<Rightarrow> bool" where
  "wf_ndarray a = (length (data a) = prod_list (shape a))"

text \<open>\<^verbatim>\<open>a.squeeze()\<close> drops every axis of length one.\<close>

definition squeeze :: "ndarray \<Rightarrow> ndarray" where
  "squeeze a = a\<lparr>shape := filter (\<lambda>d. d \<noteq> 1) (shape a)\<rparr>"

text \<open>The one-dimensional array of a list of values.\<close>

definition vec :: "fl list \<Rightarrow> ndarray" where
  "vec xs = \<lparr>shape = [length xs], data = xs\<rparr>"

text \<open>
  Python does not type the first argument of the constructor: \<^verbatim>\<open>n_states\<close> is meant to
  be an integer, and \<^verbatim>\<open>sub_output_model\<close> passes an array in its place.
\<close>

datatype pyval = PyInt int | PyArr ndarray

text \<open>
  \<^verbatim>\<open>arr.shape != (n_states,)\<close>, a comparison of tuples. For an integer \<^verbatim>\<open>n_states\<close>
  it is the comparison of the shape with the one-element tuple. For an array, Python
  compares the first axis length with the array, which numpy does element by element, and
  then asks for the truth value of the resulting array: that is the one comparison when
  the array has one element and a \<^verbatim>\<open>ValueError\<close> otherwise (an empty array is false
  with a deprecation warning in older numpy, which ends in the constructor's own
  \<^verbatim>\<open>ValueError\<close>).
\<close>

fun shape_differs :: "nat list \<Rightarrow> pyval \<Rightarrow> error + bool" where
  "shape_differs sh (PyInt n) = Inr (map int sh \<noteq> [n])"
| "shape_differs [] (PyArr a) = Inr True"
| "shape_differs (d # ds) (PyArr a) =
     (case data a of
        [x] \<Rightarrow> Inr (x \<noteq> Fin (real d) \<or> ds \<noteq> [])
      | _ \<Rightarrow> Inl ValueError)"

text \<open>
  \<^verbatim>\<open>np.zeros(n_states)\<close>: a negative length is a \<^verbatim>\<open>ValueError\<close>, an array of floats
  in place of the length a \<^verbatim>\<open>TypeError\<close> (for an array that has elements, the only
  ones to reach this call: \<^verbatim>\<open>sub_output_model\<close> passes an array and a \<^verbatim>\<open>means\<close>
  argument, and with an empty array the shape check before has raised).
\<close>

fun np_zeros :: "pyval \<Rightarrow> error + fl list" where
  "np_zeros (PyInt n) = (if n < 0 then Inl ValueError else Inr (replicate (nat n) (Fin 0)))"
| "np_zeros (PyArr a) = Inl TypeError"

text \<open>\<^verbatim>\<open>range(n_states)\<close>: empty for a negative integer, a \<^verbatim>\<open>TypeError\<close> for an array.\<close>

fun py_range :: "pyval \<Rightarrow> error + nat list" where
  "py_range (PyInt n) = Inr [0..<nat n]"
| "py_range (PyArr a) = Inl TypeError"

text \<open>
  The position a Python integer \<open>i\<close> names in a sequence of \<open>len\<close> elements: itself
  when it is from \<open>0\<close> up to \<open>len - 1\<close>, \<open>len + i\<close> when it is from \<open>- len\<close> up to
  \<open>- 1\<close>, and an \<^verbatim>\<open>IndexError\<close> otherwise.
\<close>

definition py_index :: "nat \<Rightarrow> int \<Rightarrow> error + nat" where
  "py_index len i =
     (if 0 \<le> i \<and> i < int len then Inr (nat i)
      else if i < 0 \<and> - int len \<le> i then Inr (nat (int len + i))
      else Inl IndexError)"

text \<open>\<^verbatim>\<open>xs[i]\<close>\<close>

definition getitem :: "'a list \<Rightarrow> int \<Rightarrow> error + 'a" where
  "getitem xs i = (case py_index (length xs) i of Inl e \<Rightarrow> Inl e | Inr j \<Rightarrow> Inr (xs ! j))"

text \<open>\<^verbatim>\<open>xs[i] = v\<close>\<close>

definition setitem :: "'a list \<Rightarrow> int \<Rightarrow> 'a \<Rightarrow> error + 'a list" where
  "setitem xs i v =
     (case py_index (length xs) i of Inl e \<Rightarrow> Inl e | Inr j \<Rightarrow> Inr (xs[j := v]))"

text \<open>
  \<^verbatim>\<open>xs[states]\<close> for a list of integers: numpy's selection by an index array, a new
  array with the selected entries in the order of the indices.
\<close>

fun getitems :: "'a list \<Rightarrow> int list \<Rightarrow> error + 'a list" where
  "getitems xs [] = Inr []"
| "getitems xs (i # is) =
     (case getitem xs i of
        Inl e \<Rightarrow> Inl e
      | Inr v \<Rightarrow> (case getitems xs is of Inl e \<Rightarrow> Inl e | Inr vs \<Rightarrow> Inr (v # vs)))"

section \<open>The Gaussian output model\<close>

text \<open>
  The object: the two fields of the base class and the two parameter arrays, which are
  one-dimensional whenever the constructor returns.
\<close>

record model =
  n_states :: pyval
  ignore_outliers :: bool
  means :: "fl list"
  sigmas :: "fl list"

text \<open>
  Modelled from the spec: \<^verbatim>\<open>OutputModel.__init__\<close> of
  \<^verbatim>\<open>sktime/markovprocess/bhmm/output_models/outputmodel.py\<close>, the base class, whose
  source is not at hand. The spec gives the base class the attributes \<^verbatim>\<open>n_states\<close> and
  \<^verbatim>\<open>ignore_outliers\<close>, set at construction; it stores both and checks nothing.
\<close>

definition OutputModel_init :: "pyval \<Rightarrow> bool \<Rightarrow> model" where
  "OutputModel_init n io = \<lparr>n_states = n, ignore_outliers = io, means = [], sigmas = []\<rparr>"

text \<open>
  \<^verbatim>\<open>GaussianOutputModel.__init__(self, n_states, means=None, sigmas=None,
  ignore_outliers=True)\<close>. An argument left out is \<open>None\<close>. The shape of \<^verbatim>\<open>means\<close> is
  checked as given, that of \<^verbatim>\<open>sigmas\<close> after \<^verbatim>\<open>squeeze()\<close>.
\<close>

definition GaussianOutputModel ::
  "pyval \<Rightarrow> ndarray option \<Rightarrow> ndarray option \<Rightarrow> bool \<Rightarrow> error + model" where
  "GaussianOutputModel n mu sg io =
     (let self = OutputModel_init n io in
      case (case mu of
              Some a \<Rightarrow>
                (case shape_differs (shape a) n of
                   Inl e \<Rightarrow> Inl e
                 | Inr True \<Rightarrow> Inl ValueError
                 | Inr False \<Rightarrow> Inr (self\<lparr>means := data a\<rparr>))
            | None \<Rightarrow>
                (case np_zeros n of
                   Inl e \<Rightarrow> Inl e
                 | Inr z \<Rightarrow> Inr (self\<lparr>means := z\<rparr>))) of
        Inl e \<Rightarrow> Inl e
      | Inr self \<Rightarrow>
          (case sg of
             Some a \<Rightarrow>
               (case shape_differs (shape (squeeze a)) n of
                  Inl e \<Rightarrow> Inl e
                | Inr True \<Rightarrow> Inl ValueError
                | Inr False \<Rightarrow> Inr (self\<lparr>sigmas := data (squeeze a)\<rparr>))
           | None \<Rightarrow>
               (case np_zeros n of
                  Inl e \<Rightarrow> Inl e
                | Inr z \<Rightarrow> Inr (self\<lparr>sigmas := z\<rparr>))))"

text \<open>
  \<^verbatim>\<open>sub_output_model(self, states)\<close>: the source calls the constructor with two
  positional arguments, so the selected means arrive as \<^verbatim>\<open>n_states\<close>, the selected
  sigmas as \<^verbatim>\<open>means\<close>, and \<^verbatim>\<open>sigmas\<close> is left out.
\<close>

definition sub_output_model :: "model \<Rightarrow> int list \<Rightarrow> error + model" where
  "sub_output_model self states =
     (case getitems (means self) states of
        Inl e \<Rightarrow> Inl e
      | Inr ms \<Rightarrow>
          (case getitems (sigmas self) states of
             Inl e \<Rightarrow> Inl e
           | Inr ss \<Rightarrow> GaussianOutputModel (PyArr (vec ms)) (Some (vec ss)) None True))"

section \<open>Maximum-likelihood fit\<close>

text \<open>
  A weight matrix \<^verbatim>\<open>weights[k]\<close>, a two-dimensional array: its numbers of rows and
  columns and its entry at a row and a column.
\<close>

record matrix =
  nrows :: nat
  ncols :: nat
  entry :: "nat \<Rightarrow> nat \<Rightarrow> fl"

text \<open>\<^verbatim>\<open>W[:, i]\<close> for \<open>i\<close> below the number of columns.\<close>

definition col :: "matrix \<Rightarrow> nat \<Rightarrow> fl list" where
  "col W i = map (\<lambda>t. entry W t i) [0..<nrows W]"

text \<open>\<^verbatim>\<open>np.sum(W, axis=0)\<close>\<close>

definition sum_axis0 :: "matrix \<Rightarrow> fl list" where
  "sum_axis0 W = map (\<lambda>i. fl_sum (col W i)) [0..<ncols W]"

text \<open>\<^verbatim>\<open>np.dot\<close> of two one-dimensional arrays, which must have one length.\<close>

definition np_dot :: "fl list \<Rightarrow> fl list \<Rightarrow> error + fl" where
  "np_dot xs ys =
     (if length xs \<noteq> length ys then Inl ValueError
      else Inr (fl_sum (map2 fl_mul xs ys)))"

text \<open>
  \<^verbatim>\<open>a += b\<close> on one-dimensional arrays: \<open>b\<close> has the length of \<open>a\<close>, or one element that
  is added to every entry; any other length does not broadcast.
\<close>

definition iadd :: "fl list \<Rightarrow> fl list \<Rightarrow> error + fl list" where
  "iadd a b =
     (if length b = length a then Inr (map2 fl_add a b)
      else if length b = 1 then Inr (map (\<lambda>x. fl_add x (hd b)) a)
      else Inl ValueError)"

text \<open>
  The inner loop of the first pass, \<^verbatim>\<open>for i in range(N): self.means[i] +=
  np.dot(weights[k][:, i], observations[k])\<close>, on the array \<open>mu\<close> of the means. A loop
  that raises returns the error with the array as it is at that moment.
\<close>

fun fit_means_inner ::
  "matrix \<Rightarrow> fl list \<Rightarrow> nat list \<Rightarrow> fl list \<Rightarrow> error option \<times> fl list" where
  "fit_means_inner W ob [] mu = (None, mu)"
| "fit_means_inner W ob (i # is) mu =
     (if length mu \<le> i \<or> ncols W \<le> i then (Some IndexError, mu)
      else case np_dot (col W i) ob of
             Inl e \<Rightarrow> (Some e, mu)
           | Inr d \<Rightarrow> fit_means_inner W ob is (mu[i := fl_add (mu ! i) d]))"

text \<open>
  The first pass over the trajectories, on the means and on the local \<^verbatim>\<open>w_sum\<close>.
  \<^verbatim>\<open>weights[k]\<close> is looked up once for the body; \<^verbatim>\<open>observations[k]\<close> exists since
  \<open>k\<close> is below \<^verbatim>\<open>len(observations)\<close>.
\<close>

fun fit_means_loop ::
  "fl list list \<Rightarrow> matrix list \<Rightarrow> nat list \<Rightarrow> nat list \<Rightarrow> fl list \<Rightarrow> fl list
     \<Rightarrow> error option \<times> fl list \<times> fl list" where
  "fit_means_loop obs ws rN [] mu w = (None, mu, w)"
| "fit_means_loop obs ws rN (k # ks) mu w =
     (case getitem ws (int k) of
        Inl e \<Rightarrow> (Some e, mu, w)
      | Inr W \<Rightarrow>
          (case fit_means_inner W (obs ! k) rN mu of
             (Some e, mu') \<Rightarrow> (Some e, mu', w)
           | (None, mu') \<Rightarrow>
               (case iadd w (sum_axis0 W) of
                  Inl e \<Rightarrow> (Some e, mu', w)
                | Inr w' \<Rightarrow> fit_means_loop obs ws rN ks mu' w')))"

text \<open>
  The inner loop of the second pass: \<^verbatim>\<open>Y = (observations[k] - self.means[i]) ** 2\<close>,
  then \<^verbatim>\<open>self.sigmas[i] += np.dot(weights[k][:, i], Y)\<close>, with the means \<open>mu\<close> of
  the first pass and on the array \<open>sg\<close> of the sigmas.
\<close>

fun fit_sigmas_inner ::
  "matrix \<Rightarrow> fl list \<Rightarrow> fl list \<Rightarrow> nat list \<Rightarrow> fl list \<Rightarrow> error option \<times> fl list" where
  "fit_sigmas_inner W ob mu [] sg = (None, sg)"
| "fit_sigmas_inner W ob mu (i # is) sg =
     (if length mu \<le> i then (Some IndexError, sg)
      else let Y = map (\<lambda>x. fl_sq (fl_sub x (mu ! i))) ob in
        if length sg \<le> i \<or> ncols W \<le> i then (Some IndexError, sg)
        else case np_dot (col W i) Y of
               Inl e \<Rightarrow> (Some e, sg)
             | Inr d \<Rightarrow> fit_sigmas_inner W ob mu is (sg[i := fl_add (sg ! i) d]))"

fun fit_sigmas_loop ::
  "fl list list \<Rightarrow> matrix list \<Rightarrow> fl list \<Rightarrow> nat list \<Rightarrow> nat list \<Rightarrow> fl list \<Rightarrow> fl list
     \<Rightarrow> error option \<times> fl list \<times> fl list" where
  "fit_sigmas_loop obs ws mu rN [] sg w = (None, sg, w)"
| "fit_sigmas_loop obs ws mu rN (k # ks) sg w =
     (case getitem ws (int k) of
        Inl e \<Rightarrow> (Some e, sg, w)
      | Inr W \<Rightarrow>
          (case fit_sigmas_inner W (obs ! k) mu rN sg of
             (Some e, sg') \<Rightarrow> (Some e, sg', w)
           | (None, sg') \<Rightarrow>
               (case iadd w (sum_axis0 W) of
                  Inl e \<Rightarrow> (Some e, sg', w)
                | Inr w' \<Rightarrow> fit_sigmas_loop obs ws mu rN ks sg' w')))"

text \<open>
  \<^verbatim>\<open>fit(self, observations, weights)\<close> returns how the call ends and the object as the
  call leaves it. The arrays are assigned before the final check, so the object that goes
  with the \<^verbatim>\<open>RuntimeError\<close> holds the new values. \<^verbatim>\<open>a /= w_sum\<close> divides two arrays of
  the length \<open>N\<close> entry by entry.
\<close>

definition fit :: "model \<Rightarrow> fl list list \<Rightarrow> matrix list \<Rightarrow> (error + unit) \<times> model" where
  "fit self observations weights =
     (let N = n_states self; K = length observations in
      case np_zeros N of
        Inl e \<Rightarrow> (Inl e, self)
      | Inr z \<Rightarrow>
     (case py_range N of
        Inl e \<Rightarrow> (Inl e, self\<lparr>means := z\<rparr>)
      | Inr rN \<Rightarrow>
     (case fit_means_loop observations weights rN [0..<K] z z of
        (Some e, mu, w_sum) \<Rightarrow> (Inl e, self\<lparr>means := mu\<rparr>)
      | (None, mu, w_sum) \<Rightarrow>
     (let mu = map2 fl_div mu w_sum; self = self\<lparr>means := mu\<rparr> in
      case fit_sigmas_loop observations weights mu rN [0..<K] z z of
        (Some e, sg, w_sum) \<Rightarrow> (Inl e, self\<lparr>sigmas := sg\<rparr>)
      | (None, sg, w_sum) \<Rightarrow>
     (let sg = map fl_sqrt (map2 fl_div sg w_sum); self = self\<lparr>sigmas := sg\<rparr> in
      if list_ex (\<lambda>s. fl_less s (Fin eps)) sg then (Inl RuntimeError, self)
      else (Inr (), self))))))"

section \<open>Sampling and generation\<close>

text \<open>
  What the calls that draw random numbers act on: the object, the process-wide random
  generator of numpy, and the warnings emitted so far. The generator is the infinite
  sequence of the variates it is going to return: a call to \<^verbatim>\<open>np.random.randn()\<close> or
  to \<^verbatim>\<open>np.random.chisquare(df)\<close> returns the head and leaves the tail. A warning is
  recorded as the index of the state it names.
\<close>

record world =
  obj :: model
  rng :: "real stream"
  warned :: "nat list"

text \<open>
  The second \<^verbatim>\<open>if\<close> of the loop body of \<^verbatim>\<open>sample\<close>: \<^verbatim>\<open>self.means[state_index] =
  np.random.randn() * self.sigmas[state_index] / np.sqrt(nsamples_in_state) +
  np.mean(observations_in_state)\<close>. The draw comes first, then the read of the sigma.
\<close>

definition sample_mu :: "fl list \<Rightarrow> nat \<Rightarrow> world \<Rightarrow> (error + unit) \<times> world" where
  "sample_mu observations_in_state state_index w0 =
     (let nsamples_in_state = length observations_in_state;
          z = shd (rng w0); w = w0\<lparr>rng := stl (rng w0)\<rparr> in
      case getitem (sigmas (obj w)) (int state_index) of
        Inl e \<Rightarrow> (Inl e, w)
      | Inr s \<Rightarrow>
          (let v = fl_add (fl_div (fl_mul (Fin z) s) (fl_sqrt (fl_of_nat nsamples_in_state)))
                     (np_mean observations_in_state) in
           case setitem (means (obj w)) (int state_index) v of
             Inl e \<Rightarrow> (Inl e, w)
           | Inr ms \<Rightarrow> (Inr (), w\<lparr>obj := (obj w)\<lparr>means := ms\<rparr>\<rparr>)))"

text \<open>
  The third \<^verbatim>\<open>if\<close>: \<^verbatim>\<open>chisquared = np.random.chisquare(nsamples_in_state - 1)\<close>,
  \<^verbatim>\<open>sigmahat2 = np.mean((observations_in_state - self.means[state_index]) ** 2)\<close>,
  \<^verbatim>\<open>self.sigmas[state_index] = np.sqrt(sigmahat2) / np.sqrt(chisquared /
  nsamples_in_state)\<close>.
\<close>

definition sample_sigma :: "fl list \<Rightarrow> nat \<Rightarrow> world \<Rightarrow> (error + unit) \<times> world" where
  "sample_sigma observations_in_state state_index w0 =
     (let nsamples_in_state = length observations_in_state;
          chisquared = shd (rng w0); w = w0\<lparr>rng := stl (rng w0)\<rparr> in
      case getitem (means (obj w)) (int state_index) of
        Inl e \<Rightarrow> (Inl e, w)
      | Inr m \<Rightarrow>
          (let sigmahat2 = np_mean (map (\<lambda>x. fl_sq (fl_sub x m)) observations_in_state);
               v = fl_div (fl_sqrt sigmahat2)
                     (fl_sqrt (fl_div (Fin chisquared) (fl_of_nat nsamples_in_state))) in
           case setitem (sigmas (obj w)) (int state_index) v of
             Inl e \<Rightarrow> (Inl e, w)
           | Inr ss \<Rightarrow> (Inr (), w\<lparr>obj := (obj w)\<lparr>sigmas := ss\<rparr>\<rparr>)))"

text \<open>The body of the loop of \<^verbatim>\<open>sample\<close> for one state: three \<^verbatim>\<open>if\<close> in a row.\<close>

definition sample_state :: "fl list list \<Rightarrow> nat \<Rightarrow> world \<Rightarrow> (error + unit) \<times> world" where
  "sample_state observations state_index w0 =
     (case getitem observations (int state_index) of
        Inl e \<Rightarrow> (Inl e, w0)
      | Inr observations_in_state \<Rightarrow>
          (let nsamples_in_state = length observations_in_state;
               w1 = (if nsamples_in_state = 0
                     then w0\<lparr>warned := warned w0 @ [state_index]\<rparr> else w0) in
           case (if 0 < nsamples_in_state
                 then sample_mu observations_in_state state_index w1
                 else (Inr (), w1)) of
             (Inl e, w2) \<Rightarrow> (Inl e, w2)
           | (Inr u, w2) \<Rightarrow>
               (if 1 < nsamples_in_state
                then sample_sigma observations_in_state state_index w2
                else (Inr (), w2))))"

fun sample_loop :: "fl list list \<Rightarrow> nat list \<Rightarrow> world \<Rightarrow> (error + unit) \<times> world" where
  "sample_loop observations [] w = (Inr (), w)"
| "sample_loop observations (i # is) w =
     (case sample_state observations i w of
        (Inl e, w') \<Rightarrow> (Inl e, w')
      | (Inr u, w') \<Rightarrow> sample_loop observations is w')"

text \<open>
  \<^verbatim>\<open>sample(self, observations, prior=None)\<close>; the source does not read \<^verbatim>\<open>prior\<close>.
\<close>

definition sample :: "fl list list \<Rightarrow> world \<Rightarrow> (error + unit) \<times> world" where
  "sample observations w =
     (case py_range (n_states (obj w)) of
        Inl e \<Rightarrow> (Inl e, w)
      | Inr r \<Rightarrow> sample_loop observations r w)"

text \<open>
  \<^verbatim>\<open>generate_observation_from_state(self, state_index)\<close>:
  \<^verbatim>\<open>self.sigmas[state_index] * np.random.randn() + self.means[state_index]\<close>, read
  from left to right.
\<close>

definition generate_observation_from_state :: "int \<Rightarrow> world \<Rightarrow> (error + fl) \<times> world" where
  "generate_observation_from_state state_index w0 =
     (case getitem (sigmas (obj w0)) state_index of
        Inl e \<Rightarrow> (Inl e, w0)
      | Inr s \<Rightarrow>
          (let z = shd (rng w0); w = w0\<lparr>rng := stl (rng w0)\<rparr> in
           case getitem (means (obj w)) state_index of
             Inl e \<Rightarrow> (Inl e, w)
           | Inr m \<Rightarrow> (Inr (fl_add (fl_mul s (Fin z)) m), w)))"

text \<open>
  \<^verbatim>\<open>generate_observations_from_state(self, state_index, nobs)\<close>, with
  \<^verbatim>\<open>np.random.randn(nobs)\<close>, which raises on a negative \<^verbatim>\<open>nobs\<close>.
\<close>

definition generate_observations_from_state ::
  "int \<Rightarrow> int \<Rightarrow> world \<Rightarrow> (error + fl list) \<times> world" where
  "generate_observations_from_state state_index nobs w0 =
     (case getitem (sigmas (obj w0)) state_index of
        Inl e \<Rightarrow> (Inl e, w0)
      | Inr s \<Rightarrow>
          (if nobs < 0 then (Inl ValueError, w0)
           else let zs = stake (nat nobs) (rng w0);
                    w = w0\<lparr>rng := sdrop (nat nobs) (rng w0)\<rparr> in
             case getitem (means (obj w)) state_index of
               Inl e \<Rightarrow> (Inl e, w)
             | Inr m \<Rightarrow> (Inr (map (\<lambda>z. fl_add (fl_mul s (Fin z)) m) zs), w)))"

text \<open>
  The loop of \<^verbatim>\<open>generate_observation_trajectory\<close>: \<^verbatim>\<open>s = s_t[t]\<close>, then
  \<^verbatim>\<open>o_t[t] = self.sigmas[s] * np.random.randn() + self.means[s]\<close>, for \<open>t\<close> below the
  length of \<^verbatim>\<open>s_t\<close> and of \<^verbatim>\<open>o_t\<close>.
\<close>

fun trajectory_loop ::
  "int list \<Rightarrow> nat list \<Rightarrow> fl list \<Rightarrow> world \<Rightarrow> (error + fl list) \<times> world" where
  "trajectory_loop s_t [] o_t w0 = (Inr o_t, w0)"
| "trajectory_loop s_t (t # ts) o_t w0 =
     (let s = s_t ! t in
      case getitem (sigmas (obj w0)) s of
        Inl e \<Rightarrow> (Inl e, w0)
      | Inr sg \<Rightarrow>
          (let z = shd (rng w0); w = w0\<lparr>rng := stl (rng w0)\<rparr> in
           case getitem (means (obj w)) s of
             Inl e \<Rightarrow> (Inl e, w)
           | Inr m \<Rightarrow> trajectory_loop s_t ts (o_t[t := fl_add (fl_mul sg (Fin z)) m]) w))"

text \<open>
  \<^verbatim>\<open>generate_observation_trajectory(self, s_t)\<close> for a one-dimensional array of
  integers: \<^verbatim>\<open>T = s_t.shape[0]\<close>, \<^verbatim>\<open>o_t = np.zeros([T])\<close>, the loop, \<^verbatim>\<open>return o_t\<close>.
\<close>

definition generate_observation_trajectory ::
  "int list \<Rightarrow> world \<Rightarrow> (error + fl list) \<times> world" where
  "generate_observation_trajectory s_t w =
     (let T = length s_t in
      trajectory_loop s_t [0..<T] (replicate T (Fin 0)) w)"

section \<open>The specification of the fit\<close>

text \<open>
  \<^verbatim>\<open>np.dot(weights[k][:, i], observations[k])\<close>, once the lengths agree.
\<close>

definition wdot :: "matrix \<Rightarrow> fl list \<Rightarrow> nat \<Rightarrow> fl" where
  "wdot W ob i = fl_sum (map2 fl_mul (col W i) ob)"

text \<open>
  \<^verbatim>\<open>np.dot(weights[k][:, i], Y)\<close> for \<^verbatim>\<open>Y = (observations[k] - m) ** 2\<close>, once the lengths agree.
\<close>

definition vdot :: "matrix \<Rightarrow> fl list \<Rightarrow> fl \<Rightarrow> nat \<Rightarrow> fl" where
  "vdot W ob m i = fl_sum (map2 fl_mul (col W i) (map (\<lambda>x. fl_sq (fl_sub x m)) ob))"

text \<open>
  The quantities of the specification of \<^verbatim>\<open>fit\<close>, written as it writes them and independently
  of the loops above. The weight sum of a state:
  \<open>w_sum[i] = \<Sum>\<^sub>k \<Sum>\<^sub>t weights[k][t,i]\<close>, over the trajectories and their time steps.
\<close>

definition spec_w_sum :: "fl list list \<Rightarrow> matrix list \<Rightarrow> nat \<Rightarrow> fl" where
  "spec_w_sum obs ws i =
     fl_sum (map (\<lambda>k. fl_sum (map (\<lambda>t. entry (ws ! k) t i) [0..<length (obs ! k)]))
       [0..<length obs])"

text \<open>
  \<open>mean_num[i] = \<Sum>\<^sub>k \<Sum>\<^sub>t weights[k][t,i] \<cdot> observations[k][t]\<close>
\<close>

definition spec_mean_num :: "fl list list \<Rightarrow> matrix list \<Rightarrow> nat \<Rightarrow> fl" where
  "spec_mean_num obs ws i =
     fl_sum (map (\<lambda>k. fl_sum (map (\<lambda>t. fl_mul (entry (ws ! k) t i) (obs ! k ! t))
                               [0..<length (obs ! k)]))
       [0..<length obs])"

text \<open>
  \<open>means[i] = mean_num[i] / w_sum[i]\<close>
\<close>

definition spec_mean :: "fl list list \<Rightarrow> matrix list \<Rightarrow> nat \<Rightarrow> fl" where
  "spec_mean obs ws i = fl_div (spec_mean_num obs ws i) (spec_w_sum obs ws i)"

text \<open>
  \<open>var_num[i] = \<Sum>\<^sub>k \<Sum>\<^sub>t weights[k][t,i] \<cdot> (observations[k][t] - m)\<^sup>2\<close> about a mean \<open>m\<close>.
\<close>

definition spec_var_num :: "fl list list \<Rightarrow> matrix list \<Rightarrow> fl \<Rightarrow> nat \<Rightarrow> fl" where
  "spec_var_num obs ws m i =
     fl_sum (map (\<lambda>k. fl_sum (map (\<lambda>t. fl_mul (entry (ws ! k) t i)
                                         (fl_sq (fl_sub (obs ! k ! t) m)))
                               [0..<length (obs ! k)]))
       [0..<length obs])"

text \<open>
  \<open>sigmas[i] = sqrt(var_num[i] / w_sum[i])\<close>, the numerator taken about the new mean.
\<close>

definition spec_sigma :: "fl list list \<Rightarrow> matrix list \<Rightarrow> nat \<Rightarrow> fl" where
  "spec_sigma obs ws i =
     fl_sqrt (fl_div (spec_var_num obs ws (spec_mean obs ws i) i) (spec_w_sum obs ws i))"

text \<open>
  Matching input of \<^verbatim>\<open>fit\<close> for \<open>N\<close> states: a weight matrix for every trajectory, with \<open>N\<close>
  columns and one row for every observation of the trajectory.
\<close>

definition fit_input_ok :: "nat \<Rightarrow> fl list list \<Rightarrow> matrix list \<Rightarrow> bool" where
  "fit_input_ok N obs ws =
     (length obs \<le> length ws
      \<and> list_all (\<lambda>k. ncols (ws ! k) = N \<and> nrows (ws ! k) = length (obs ! k)) [0..<length obs])"

text \<open>
  Inputs for the examples: a weight matrix with one value everywhere, and a model of one
  state with mean \<open>0\<close> and sigma \<open>1\<close>.
\<close>

definition const_matrix :: "nat \<Rightarrow> nat \<Rightarrow> fl \<Rightarrow> matrix" where
  "const_matrix r c x = \<lparr>nrows = r, ncols = c, entry = \<lambda>t i. x\<rparr>"

definition one_state_model :: model where
  "one_state_model =
     \<lparr>n_states = PyInt 1, ignore_outliers = True, means = [Fin 0], sigmas = [Fin 1]\<rparr>"

text \<open>
  A model of two states, and two weight matrices for a trajectory of two observations and
  a trajectory of one: the first gives the weights \<open>1\<close> and \<open>2\<close> to the two states at
  both time steps, the second the weights \<open>6\<close> and \<open>0\<close>.
\<close>

definition two_state_model :: model where
  "two_state_model =
     \<lparr>n_states = PyInt 2, ignore_outliers = True,
      means = [Fin 0, Fin 0], sigmas = [Fin 0, Fin 0]\<rparr>"

definition weights_a :: matrix where
  "weights_a = \<lparr>nrows = 2, ncols = 2, entry = \<lambda>t i. if i = 0 then Fin 1 else Fin 2\<rparr>"

definition weights_b :: matrix where
  "weights_b = \<lparr>nrows = 1, ncols = 2, entry = \<lambda>t i. if i = 0 then Fin 6 else Fin 0\<rparr>"

section \<open>The specification of sampling and generation\<close>

text \<open>
  The value of \<^verbatim>\<open>xs[i]\<close> for an integer that names a position: a state index from
  \<open>0\<close> up to \<open>N - 1\<close>, or from \<open>- N\<close> up to \<open>- 1\<close>, counted from the end as Python does.
\<close>

definition valid_index :: "nat \<Rightarrow> int \<Rightarrow> bool" where
  "valid_index N i = (- int N \<le> i \<and> i < int N)"

definition py_at :: "'a list \<Rightarrow> int \<Rightarrow> 'a" where
  "py_at xs i = xs ! nat (if i < 0 then int (length xs) + i else i)"

text \<open>
  The observation a state emits for the standard normal variate \<open>z\<close>:
  \<open>sigma[state] \<cdot> z + mean[state]\<close>.
\<close>

definition spec_emission :: "model \<Rightarrow> int \<Rightarrow> real \<Rightarrow> fl" where
  "spec_emission m s z = fl_add (fl_mul (py_at (sigmas m) s) (Fin z)) (py_at (means m) s)"

text \<open>
  The new mean of a state in \<^verbatim>\<open>sample\<close>, for the standard normal variate \<open>z\<close>, the
  sigma of the state and its observations: \<open>z \<cdot> sigma / sqrt(n) + mean(observations)\<close>.
\<close>

definition spec_new_mean :: "real \<Rightarrow> fl \<Rightarrow> fl list \<Rightarrow> fl" where
  "spec_new_mean z sigma xs =
     fl_add (fl_div (fl_mul (Fin z) sigma) (fl_sqrt (fl_of_nat (length xs)))) (np_mean xs)"

text \<open>
  The new sigma of a state in \<^verbatim>\<open>sample\<close>, for the chi-squared variate \<open>c\<close>, a mean \<open>m\<close>
  and the observations of the state: the root of the mean squared distance to \<open>m\<close> over
  \<open>sqrt(c / n)\<close>.
\<close>

definition spec_new_sigma :: "real \<Rightarrow> fl \<Rightarrow> fl list \<Rightarrow> fl" where
  "spec_new_sigma c m xs =
     fl_div (fl_sqrt (np_mean (map (\<lambda>x. fl_sq (fl_sub x m)) xs)))
            (fl_sqrt (fl_div (Fin c) (fl_of_nat (length xs))))"

text \<open>
  The parameter arrays of the model have one entry for every one of \<open>N\<close> states.
\<close>

definition world_ok :: "nat \<Rightarrow> world \<Rightarrow> bool" where
  "world_ok N w = (length (means (obj w)) = N \<and> length (sigmas (obj w)) = N)"


text \<open>
  Worlds for the examples. Three states with the means \<open>-1, 0, 1\<close> and the sigmas
  \<open>1, 2, 3\<close>, and a generator that returns \<open>1, 2, 3\<close> and then zeros.
\<close>

definition three_state_world :: world where
  "three_state_world =
     \<lparr>obj = \<lparr>n_states = PyInt 3, ignore_outliers = True,
              means = [Fin (- 1), Fin 0, Fin 1], sigmas = [Fin 1, Fin 2, Fin 3]\<rparr>,
      rng = 1 ## 2 ## 3 ## sconst 0,
      warned = []\<rparr>"

text \<open>
  Two states with the sigmas \<open>2\<close> and \<open>3\<close>; one state with the sigma \<open>2\<close>; and the model
  of one state as the constructor makes it when no sigmas are given, with the sigma \<open>0\<close>.
\<close>

definition sample_world_a :: world where
  "sample_world_a =
     \<lparr>obj = \<lparr>n_states = PyInt 2, ignore_outliers = True,
              means = [Fin 0, Fin 0], sigmas = [Fin 2, Fin 3]\<rparr>,
      rng = 1 ## 2 ## sconst 0,
      warned = []\<rparr>"



section \<open>Rounding\<close>

text \<open>
  Zero and the integers below \<open>2\<close> to the \<open>53\<close> in absolute value are binary64 values:
  rounding leaves them as they are.
\<close>

lemma rne_of_int [simp]: "rne (of_int k) = k"
  by (simp add: rne_def)

lemma rnd_zero [simp]: "rnd 0 = Fin 0"
  by (simp add: rnd_def)

lemma rnd_exact:
  assumes "x \<noteq> 0" and "x / ulp x = of_int k" and "\<bar>x\<bar> < 2 ^ 1024"
  shows "rnd x = Fin x"
proof -
  have u: "ulp x \<noteq> 0" by (simp add: ulp_def)
  have "of_int k * ulp x = x" using assms(2) u by (simp add: field_simps)
  then show ?thesis using assms by (simp add: rnd_def)
qed

lemma rnd_of_int:
  assumes "n \<noteq> 0" and "\<bar>n\<bar> < 2 ^ 53"
  shows "rnd (of_int n) = Fin (of_int n)"
proof -
  let ?x = "of_int n :: real"
  let ?e = "\<lfloor>log 2 \<bar>?x\<bar>\<rfloor>"
  have x1: "1 \<le> \<bar>?x\<bar>" using assms(1) by (simp flip: of_int_abs)
  have x2: "\<bar>?x\<bar> < 2 ^ 53"
    using assms(2) by (metis of_int_abs of_int_less_numeral_power_cancel_iff)
  have "0 \<le> log 2 \<bar>?x\<bar>" using x1 by simp
  then have e0: "0 \<le> ?e" by simp
  have "log 2 \<bar>?x\<bar> < 53" using x1 x2 by (simp add: log_less_iff powr_realpow)
  then have e1: "?e \<le> 52" by linarith
  define j where "j = nat (52 - ?e)"
  have u: "ulp ?x = inverse (2 ^ j)"
    using e0 e1 unfolding ulp_def j_def
    by (simp add: power_int_def max_def power_one_over inverse_eq_divide)
  have q: "?x / ulp ?x = of_int (n * 2 ^ j)" by (simp add: u divide_inverse)
  have b: "\<bar>?x\<bar> < 2 ^ 1024"
  proof -
    have "(2::real) ^ 53 \<le> 2 ^ 1024" by (rule power_increasing) simp_all
    with x2 show ?thesis by linarith
  qed
  have nz: "?x \<noteq> 0" using assms(1) by simp
  show ?thesis by (rule rnd_exact [OF nz q b])
qed

lemma rnd_numeral [simp]: "numeral k < (2::int) ^ 53 \<Longrightarrow> rnd (numeral k) = Fin (numeral k)"
  using rnd_of_int [of "numeral k"] by simp

lemma rnd_neg_numeral [simp]:
  "numeral k < (2::int) ^ 53 \<Longrightarrow> rnd (- numeral k) = Fin (- numeral k)"
  using rnd_of_int [of "- numeral k"] by simp

lemma rnd_one [simp]: "rnd 1 = Fin 1"
  using rnd_of_int [of 1] by simp

lemma rnd_neg_one [simp]: "rnd (- 1) = Fin (- 1)"
  using rnd_of_int [of "- 1"] by simp

text \<open>
  Above that bound the arithmetic rounds: \<open>9007199254740992\<close> is \<open>2\<close> to the \<open>53\<close>, the
  next integer lies half way between two binary64 values, and the sum with \<open>1\<close> is the
  neighbour with the even significand, as \<^verbatim>\<open>2.0 ** 53 + 1.0 == 2.0 ** 53\<close> in Python.
\<close>

lemma ulp_above_2_53: "ulp 9007199254740993 = 2"
proof -
  have "\<lfloor>log 2 \<bar>9007199254740993 :: real\<bar>\<rfloor> = 53"
    by (subst floor_log_eq_powr_iff) (simp_all add: powr_realpow [symmetric])
  then show ?thesis by (simp add: ulp_def)
qed

lemma fl_add_rounds: "fl_add (Fin 9007199254740992) (Fin 1) = Fin 9007199254740992"
proof -
  have q: "9007199254740993 / 2 = (4503599627370496 + 1 / 2 :: real)" by simp
  have f: "\<lfloor>4503599627370496 + 1 / 2 :: real\<rfloor> = 4503599627370496" by linarith
  have "rne (9007199254740993 / ulp 9007199254740993) = 4503599627370496"
    unfolding ulp_above_2_53 q by (simp add: rne_def Let_def f)
  then have "rnd 9007199254740993 = Fin 9007199254740992"
    by (simp add: rnd_def Let_def ulp_above_2_53)
  then show ?thesis by simp
qed

section \<open>Construction and sub-models\<close>

text \<open>
  Claim C5 says that for every \<open>n_states \<ge> 1\<close> the constructor accepts means and sigmas
  of length \<open>n_states\<close> and returns them as given. The code does not for one state: the
  sigmas are squeezed before the check, a one-element vector loses its only axis, and the
  constructor raises the validation error on the documented shape \<open>(n_states,)\<close>.
\<close>

theorem init_one_state_rejected:
  "GaussianOutputModel (PyInt 1) (Some (vec [Fin 0])) (Some (vec [Fin 1])) True
     = Inl ValueError"
  by (simp add: GaussianOutputModel_def OutputModel_init_def vec_def squeeze_def)

text \<open>
  For any other number of states and one-dimensional arguments the constructor does what
  C5 says: vectors of the right length are stored as given, a vector of another length is
  the validation error, and an argument left out is a vector of zeros.
\<close>

lemma init_roundtrip_not_one:
  assumes "n \<noteq> 1" and "length ms = n" and "length ss = n"
  shows "GaussianOutputModel (PyInt (int n)) (Some (vec ms)) (Some (vec ss)) io
           = Inr \<lparr>n_states = PyInt (int n), ignore_outliers = io, means = ms, sigmas = ss\<rparr>"
  using assms by (simp add: GaussianOutputModel_def OutputModel_init_def vec_def squeeze_def)

lemma init_means_mismatch:
  assumes "length ms \<noteq> n"
  shows "GaussianOutputModel (PyInt (int n)) (Some (vec ms)) sg io = Inl ValueError"
  using assms by (simp add: GaussianOutputModel_def OutputModel_init_def vec_def)

lemma init_sigmas_mismatch:
  assumes "length ss \<noteq> n"
  shows "GaussianOutputModel (PyInt (int n)) mu (Some (vec ss)) io \<noteq> Inr m"
  using assms
  by (auto simp add: GaussianOutputModel_def OutputModel_init_def vec_def squeeze_def Let_def
      split: option.splits sum.splits bool.splits if_splits)

lemma init_defaults:
  "GaussianOutputModel (PyInt (int n)) None None io
     = Inr \<lparr>n_states = PyInt (int n), ignore_outliers = io,
            means = replicate n (Fin 0), sigmas = replicate n (Fin 0)\<rparr>"
  by (simp add: GaussianOutputModel_def OutputModel_init_def)

text \<open>
  Claim C10 says that for every \<open>n_states\<close> a sigmas array of shape \<open>(n_states, 1)\<close> is
  accepted and stored as a vector of length \<open>n_states\<close>, and a means array of that shape
  rejected. The code squeezes the sigmas so as to accept such an array, and misses the
  model of one state: the array of shape \<open>(1, 1)\<close> is squeezed to the shape \<open>()\<close> and
  rejected. It is the defect of C5.
\<close>

theorem init_squeeze_one_state_rejected:
  "GaussianOutputModel (PyInt 1) None (Some \<lparr>shape = [1, 1], data = [Fin 1]\<rparr>) True
     = Inl ValueError"
  by (simp add: GaussianOutputModel_def OutputModel_init_def squeeze_def)

text \<open>
  For any other number of states the constructor does what C10 says: where it accepts the
  means, it accepts with them a sigmas array of shape \<open>(n_states, 1)\<close> and stores its
  elements, and it rejects a means array of that shape.
\<close>

lemma init_squeeze_sigmas_accepted:
  assumes "n \<noteq> 1" and "shape a = [n, 1]"
    and "GaussianOutputModel (PyInt (int n)) mu None io = Inr m0"
  shows "GaussianOutputModel (PyInt (int n)) mu (Some a) io = Inr (m0\<lparr>sigmas := data a\<rparr>)"
  using assms
  by (auto simp add: GaussianOutputModel_def OutputModel_init_def squeeze_def Let_def
      split: option.splits sum.splits bool.splits if_splits)

lemma init_means_column_rejected:
  assumes "shape a = [n, 1]"
  shows "GaussianOutputModel (PyInt (int n)) (Some a) sg io = Inl ValueError"
  using assms by (simp add: GaussianOutputModel_def OutputModel_init_def)

text \<open>
  Claim C1 says that \<^verbatim>\<open>sub_output_model(states)\<close> returns a new model with the parent's
  means and sigmas at the given indices. The code passes the selected means in the place
  of \<^verbatim>\<open>n_states\<close> and the selected sigmas in the place of \<^verbatim>\<open>means\<close>: on the model of
  the docstrings, with means \<open>-1, 0, 1\<close> and sigmas \<open>0.5, 1, 2\<close>, the sub-model of the
  state \<open>0\<close> is not returned, the call raises.
\<close>

theorem sub_output_model_raises:
  "GaussianOutputModel (PyInt 3) (Some (vec [Fin (- 1), Fin 0, Fin 1]))
       (Some (vec [Fin (1 / 2), Fin 1, Fin 2])) True
     = Inr \<lparr>n_states = PyInt 3, ignore_outliers = True,
            means = [Fin (- 1), Fin 0, Fin 1], sigmas = [Fin (1 / 2), Fin 1, Fin 2]\<rparr>
   \<and> sub_output_model
       \<lparr>n_states = PyInt 3, ignore_outliers = True,
        means = [Fin (- 1), Fin 0, Fin 1], sigmas = [Fin (1 / 2), Fin 1, Fin 2]\<rparr> [0]
     = Inl ValueError"
  by (simp add: sub_output_model_def getitem_def py_index_def GaussianOutputModel_def
      OutputModel_init_def vec_def squeeze_def)

text \<open>No call of \<^verbatim>\<open>sub_output_model\<close> returns a model.\<close>

lemma sub_output_model_never_returns: "sub_output_model self states \<noteq> Inr m"
  by (auto simp add: sub_output_model_def GaussianOutputModel_def OutputModel_init_def Let_def
      split: sum.splits bool.splits)

section \<open>The fit\<close>

text \<open>
  On matching input the two passes of \<^verbatim>\<open>fit\<close> do not raise, and what they leave in the
  arrays are the sums of the specification.
\<close>

lemma length_col [simp]: "length (col W i) = nrows W"
  by (simp add: col_def)


lemma fit_means_inner_ok:
  assumes "distinct is" and "\<forall>i\<in>set is. i < length mu \<and> i < ncols W" and "nrows W = length ob"
  shows "\<exists>mu'. fit_means_inner W ob is mu = (None, mu') \<and> length mu' = length mu
           \<and> (\<forall>j<length mu. mu' ! j = (if j \<in> set is then fl_add (mu ! j) (wdot W ob j) else mu ! j))"
  using assms
proof (induction "is" arbitrary: mu)
  case Nil
  then show ?case by simp
next
  case (Cons i "is")
  let ?mu1 = "mu[i := fl_add (mu ! i) (wdot W ob i)]"
  have step: "fit_means_inner W ob (i # is) mu = fit_means_inner W ob is ?mu1"
    using Cons.prems by (simp add: np_dot_def wdot_def)
  have "\<exists>mu'. fit_means_inner W ob is ?mu1 = (None, mu') \<and> length mu' = length ?mu1
           \<and> (\<forall>j<length ?mu1. mu' ! j = (if j \<in> set is then fl_add (?mu1 ! j) (wdot W ob j) else ?mu1 ! j))"
    using Cons.prems by (intro Cons.IH) auto
  then obtain mu' where m: "fit_means_inner W ob is ?mu1 = (None, mu')" "length mu' = length mu"
    "\<forall>j<length mu. mu' ! j = (if j \<in> set is then fl_add (?mu1 ! j) (wdot W ob j) else ?mu1 ! j)"
    by auto
  have "\<forall>j<length mu. mu' ! j = (if j \<in> set (i # is) then fl_add (mu ! j) (wdot W ob j) else mu ! j)"
  proof (intro allI impI)
    fix j assume j: "j < length mu"
    show "mu' ! j = (if j \<in> set (i # is) then fl_add (mu ! j) (wdot W ob j) else mu ! j)"
    proof (cases "j = i")
      case True
      then have "j \<notin> set is" using Cons.prems(1) by simp
      with m(3) j True show ?thesis by simp
    next
      case False
      with m(3) j show ?thesis by simp
    qed
  qed
  with step m show ?case by simp
qed


lemma fit_means_inner_range:
  assumes "length mu = N" and "ncols W = N" and "nrows W = length ob"
  shows "fit_means_inner W ob [0..<N] mu = (None, map (\<lambda>j. fl_add (mu ! j) (wdot W ob j)) [0..<N])"
proof -
  obtain mu' where m: "fit_means_inner W ob [0..<N] mu = (None, mu')" "length mu' = length mu"
    "\<forall>j<length mu. mu' ! j = (if j \<in> set [0..<N] then fl_add (mu ! j) (wdot W ob j) else mu ! j)"
    using fit_means_inner_ok [of "[0..<N]" mu W ob] assms by auto
  have "mu' = map (\<lambda>j. fl_add (mu ! j) (wdot W ob j)) [0..<N]"
    using m assms by (intro nth_equalityI) auto
  with m show ?thesis by simp
qed


lemma fit_sigmas_inner_ok:
  assumes "distinct is" and "\<forall>i\<in>set is. i < length sg \<and> i < ncols W \<and> i < length mu"
    and "nrows W = length ob"
  shows "\<exists>sg'. fit_sigmas_inner W ob mu is sg = (None, sg') \<and> length sg' = length sg
           \<and> (\<forall>j<length sg. sg' ! j =
                 (if j \<in> set is then fl_add (sg ! j) (vdot W ob (mu ! j) j) else sg ! j))"
  using assms
proof (induction "is" arbitrary: sg)
  case Nil
  then show ?case by simp
next
  case (Cons i "is")
  let ?sg1 = "sg[i := fl_add (sg ! i) (vdot W ob (mu ! i) i)]"
  have step: "fit_sigmas_inner W ob mu (i # is) sg = fit_sigmas_inner W ob mu is ?sg1"
    using Cons.prems by (simp add: np_dot_def vdot_def)
  have "\<exists>sg'. fit_sigmas_inner W ob mu is ?sg1 = (None, sg') \<and> length sg' = length ?sg1
           \<and> (\<forall>j<length ?sg1. sg' ! j =
                 (if j \<in> set is then fl_add (?sg1 ! j) (vdot W ob (mu ! j) j) else ?sg1 ! j))"
    using Cons.prems by (intro Cons.IH) auto
  then obtain sg' where m: "fit_sigmas_inner W ob mu is ?sg1 = (None, sg')"
    "length sg' = length sg"
    "\<forall>j<length sg. sg' ! j =
        (if j \<in> set is then fl_add (?sg1 ! j) (vdot W ob (mu ! j) j) else ?sg1 ! j)"
    by auto
  have "\<forall>j<length sg. sg' ! j =
          (if j \<in> set (i # is) then fl_add (sg ! j) (vdot W ob (mu ! j) j) else sg ! j)"
  proof (intro allI impI)
    fix j assume j: "j < length sg"
    show "sg' ! j = (if j \<in> set (i # is) then fl_add (sg ! j) (vdot W ob (mu ! j) j) else sg ! j)"
    proof (cases "j = i")
      case True
      then have "j \<notin> set is" using Cons.prems(1) by simp
      with m(3) j True show ?thesis by simp
    next
      case False
      with m(3) j show ?thesis by simp
    qed
  qed
  with step m show ?case by simp
qed


lemma fit_sigmas_inner_range:
  assumes "length sg = N" and "length mu = N" and "ncols W = N" and "nrows W = length ob"
  shows "fit_sigmas_inner W ob mu [0..<N] sg
           = (None, map (\<lambda>j. fl_add (sg ! j) (vdot W ob (mu ! j) j)) [0..<N])"
proof -
  obtain sg' where m: "fit_sigmas_inner W ob mu [0..<N] sg = (None, sg')" "length sg' = length sg"
    "\<forall>j<length sg. sg' ! j =
        (if j \<in> set [0..<N] then fl_add (sg ! j) (vdot W ob (mu ! j) j) else sg ! j)"
    using fit_sigmas_inner_ok [of "[0..<N]" sg W mu ob] assms by auto
  have "sg' = map (\<lambda>j. fl_add (sg ! j) (vdot W ob (mu ! j) j)) [0..<N]"
    using m assms by (intro nth_equalityI) auto
  with m show ?thesis by simp
qed


lemma map_nth_len: "length xs = N \<Longrightarrow> map ((!) xs) [0..<N] = xs"
  using map_nth [of xs] by simp


lemma getitem_nat [simp]: "k < length xs \<Longrightarrow> getitem xs (int k) = Inr (xs ! k)"
  by (simp add: getitem_def py_index_def)


lemma iadd_same:
  assumes "length w = N" and "ncols W = N"
  shows "iadd w (sum_axis0 W) = Inr (map (\<lambda>j. fl_add (w ! j) (fl_sum (col W j))) [0..<N])"
proof -
  have "map2 fl_add w (sum_axis0 W) = map (\<lambda>j. fl_add (w ! j) (fl_sum (col W j))) [0..<N]"
    using assms by (intro nth_equalityI) (auto simp add: sum_axis0_def)
  then show ?thesis using assms by (simp add: iadd_def sum_axis0_def)
qed


lemma fit_means_loop_ok:
  assumes "\<forall>k\<in>set ks. k < length ws \<and> ncols (ws ! k) = N \<and> nrows (ws ! k) = length (obs ! k)"
    and "length mu = N" and "length w = N"
  shows "fit_means_loop obs ws [0..<N] ks mu w =
           (None,
            map (\<lambda>j. foldl fl_add (mu ! j) (map (\<lambda>k. wdot (ws ! k) (obs ! k) j) ks)) [0..<N],
            map (\<lambda>j. foldl fl_add (w ! j) (map (\<lambda>k. fl_sum (col (ws ! k) j)) ks)) [0..<N])"
  using assms
proof (induction ks arbitrary: mu w)
  case Nil
  then show ?case by (simp add: map_nth_len)
next
  case (Cons k ks)
  let ?W = "ws ! k"
  let ?mu1 = "map (\<lambda>j. fl_add (mu ! j) (wdot ?W (obs ! k) j)) [0..<N]"
  let ?w1 = "map (\<lambda>j. fl_add (w ! j) (fl_sum (col ?W j))) [0..<N]"
  have k: "k < length ws" "ncols ?W = N" "nrows ?W = length (obs ! k)"
    using Cons.prems(1) by auto
  have step: "fit_means_loop obs ws [0..<N] (k # ks) mu w = fit_means_loop obs ws [0..<N] ks ?mu1 ?w1"
    using k Cons.prems(2,3)
    by (simp add: fit_means_inner_range [of mu N ?W "obs ! k"] iadd_same [of w N ?W])
  have ih: "fit_means_loop obs ws [0..<N] ks ?mu1 ?w1 =
           (None,
            map (\<lambda>j. foldl fl_add (?mu1 ! j) (map (\<lambda>k. wdot (ws ! k) (obs ! k) j) ks)) [0..<N],
            map (\<lambda>j. foldl fl_add (?w1 ! j) (map (\<lambda>k. fl_sum (col (ws ! k) j)) ks)) [0..<N])"
    using Cons.prems by (intro Cons.IH) auto
  show ?case unfolding step ih by simp
qed


lemma fit_sigmas_loop_ok:
  assumes "\<forall>k\<in>set ks. k < length ws \<and> ncols (ws ! k) = N \<and> nrows (ws ! k) = length (obs ! k)"
    and "length sg = N" and "length w = N" and "length mu = N"
  shows "fit_sigmas_loop obs ws mu [0..<N] ks sg w =
           (None,
            map (\<lambda>j. foldl fl_add (sg ! j) (map (\<lambda>k. vdot (ws ! k) (obs ! k) (mu ! j) j) ks)) [0..<N],
            map (\<lambda>j. foldl fl_add (w ! j) (map (\<lambda>k. fl_sum (col (ws ! k) j)) ks)) [0..<N])"
  using assms
proof (induction ks arbitrary: sg w)
  case Nil
  then show ?case by (simp add: map_nth_len)
next
  case (Cons k ks)
  let ?W = "ws ! k"
  let ?sg1 = "map (\<lambda>j. fl_add (sg ! j) (vdot ?W (obs ! k) (mu ! j) j)) [0..<N]"
  let ?w1 = "map (\<lambda>j. fl_add (w ! j) (fl_sum (col ?W j))) [0..<N]"
  have k: "k < length ws" "ncols ?W = N" "nrows ?W = length (obs ! k)"
    using Cons.prems(1) by auto
  have step: "fit_sigmas_loop obs ws mu [0..<N] (k # ks) sg w
                = fit_sigmas_loop obs ws mu [0..<N] ks ?sg1 ?w1"
    using k Cons.prems(2,3,4)
    by (simp add: fit_sigmas_inner_range [of sg N mu ?W "obs ! k"] iadd_same [of w N ?W])
  have ih: "fit_sigmas_loop obs ws mu [0..<N] ks ?sg1 ?w1 =
           (None,
            map (\<lambda>j. foldl fl_add (?sg1 ! j) (map (\<lambda>k. vdot (ws ! k) (obs ! k) (mu ! j) j) ks)) [0..<N],
            map (\<lambda>j. foldl fl_add (?w1 ! j) (map (\<lambda>k. fl_sum (col (ws ! k) j)) ks)) [0..<N])"
    using Cons.prems by (intro Cons.IH) auto
  show ?case unfolding step ih by simp
qed


lemma col_rows: "nrows W = length ob \<Longrightarrow> col W i = map (\<lambda>t. entry W t i) [0..<length ob]"
  by (simp add: col_def)


lemma wdot_rows:
  assumes "nrows W = length ob"
  shows "wdot W ob i = fl_sum (map (\<lambda>t. fl_mul (entry W t i) (ob ! t)) [0..<length ob])"
proof -
  have "map2 fl_mul (col W i) ob = map (\<lambda>t. fl_mul (entry W t i) (ob ! t)) [0..<length ob]"
    using assms by (intro nth_equalityI) (auto simp add: col_def)
  then show ?thesis by (simp add: wdot_def)
qed


lemma vdot_rows:
  assumes "nrows W = length ob"
  shows "vdot W ob m i
           = fl_sum (map (\<lambda>t. fl_mul (entry W t i) (fl_sq (fl_sub (ob ! t) m))) [0..<length ob])"
proof -
  have "map2 fl_mul (col W i) (map (\<lambda>x. fl_sq (fl_sub x m)) ob)
          = map (\<lambda>t. fl_mul (entry W t i) (fl_sq (fl_sub (ob ! t) m))) [0..<length ob]"
    using assms by (intro nth_equalityI) (auto simp add: col_def)
  then show ?thesis by (simp add: vdot_def)
qed


lemma fit_result:
  assumes ns: "n_states self = PyInt (int N)" and ok: "fit_input_ok N obs ws"
  shows "fit self obs ws =
           (if list_ex (\<lambda>s. fl_less s (Fin eps)) (map (spec_sigma obs ws) [0..<N])
            then Inl RuntimeError else Inr (),
            self\<lparr>means := map (spec_mean obs ws) [0..<N],
                 sigmas := map (spec_sigma obs ws) [0..<N]\<rparr>)"
proof -
  let ?K = "length obs"
  let ?z = "replicate N (Fin 0)"
  have shapes: "\<forall>k\<in>set [0..<?K]. k < length ws \<and> ncols (ws ! k) = N
                  \<and> nrows (ws ! k) = length (obs ! k)"
    using ok by (auto simp add: fit_input_ok_def list_all_iff)
  have wsum: "map (\<lambda>j. foldl fl_add (?z ! j) (map (\<lambda>k. fl_sum (col (ws ! k) j)) [0..<?K])) [0..<N]
                = map (spec_w_sum obs ws) [0..<N]"
  proof (rule map_cong [OF refl])
    fix j assume "j \<in> set [0..<N]"
    then have z: "?z ! j = Fin 0" by simp
    have m: "map (\<lambda>k. fl_sum (col (ws ! k) j)) [0..<?K]
        = map (\<lambda>k. fl_sum (map (\<lambda>t. entry (ws ! k) t j) [0..<length (obs ! k)])) [0..<?K]"
      using shapes by (intro map_cong [OF refl]) (simp add: col_rows)
    show "foldl fl_add (?z ! j) (map (\<lambda>k. fl_sum (col (ws ! k) j)) [0..<?K])
                       = spec_w_sum obs ws j"
      unfolding z m by (simp only: spec_w_sum_def fl_sum_def)
  qed
  have mnum: "map (\<lambda>j. foldl fl_add (?z ! j) (map (\<lambda>k. wdot (ws ! k) (obs ! k) j) [0..<?K])) [0..<N]
                = map (spec_mean_num obs ws) [0..<N]"
  proof (rule map_cong [OF refl])
    fix j assume "j \<in> set [0..<N]"
    then have z: "?z ! j = Fin 0" by simp
    have m: "map (\<lambda>k. wdot (ws ! k) (obs ! k) j) [0..<?K]
        = map (\<lambda>k. fl_sum (map (\<lambda>t. fl_mul (entry (ws ! k) t j) (obs ! k ! t))
                                 [0..<length (obs ! k)])) [0..<?K]"
      using shapes by (intro map_cong [OF refl]) (simp add: wdot_rows)
    show "foldl fl_add (?z ! j) (map (\<lambda>k. wdot (ws ! k) (obs ! k) j) [0..<?K])
                       = spec_mean_num obs ws j"
      unfolding z m by (simp only: spec_mean_num_def fl_sum_def)
  qed
  have loop1: "fit_means_loop obs ws [0..<N] [0..<?K] ?z ?z
                 = (None, map (spec_mean_num obs ws) [0..<N], map (spec_w_sum obs ws) [0..<N])"
    using fit_means_loop_ok [OF shapes, of ?z ?z] by (simp add: wsum mnum)
  let ?mu = "map (spec_mean obs ws) [0..<N]"
  have div1: "map2 fl_div (map (spec_mean_num obs ws) [0..<N]) (map (spec_w_sum obs ws) [0..<N]) = ?mu"
    by (intro nth_equalityI) (auto simp add: spec_mean_def)
  have vnum: "map (\<lambda>j. foldl fl_add (?z ! j)
                 (map (\<lambda>k. vdot (ws ! k) (obs ! k) (?mu ! j) j) [0..<?K])) [0..<N]
                = map (\<lambda>j. spec_var_num obs ws (spec_mean obs ws j) j) [0..<N]"
  proof (rule map_cong [OF refl])
    fix j assume j: "j \<in> set [0..<N]"
    then have z: "?z ! j = Fin 0" and mj: "?mu ! j = spec_mean obs ws j" by simp_all
    have m: "map (\<lambda>k. vdot (ws ! k) (obs ! k) (spec_mean obs ws j) j) [0..<?K]
        = map (\<lambda>k. fl_sum (map (\<lambda>t. fl_mul (entry (ws ! k) t j)
                                         (fl_sq (fl_sub (obs ! k ! t) (spec_mean obs ws j))))
                                 [0..<length (obs ! k)])) [0..<?K]"
      using shapes by (intro map_cong [OF refl]) (simp add: vdot_rows)
    show "foldl fl_add (?z ! j)
                       (map (\<lambda>k. vdot (ws ! k) (obs ! k) (?mu ! j) j) [0..<?K])
                       = spec_var_num obs ws (spec_mean obs ws j) j"
      unfolding z mj m by (simp only: spec_var_num_def fl_sum_def)
  qed
  have loop2: "fit_sigmas_loop obs ws ?mu [0..<N] [0..<?K] ?z ?z
                 = (None, map (\<lambda>j. spec_var_num obs ws (spec_mean obs ws j) j) [0..<N],
                    map (spec_w_sum obs ws) [0..<N])"
    using fit_sigmas_loop_ok [OF shapes, of ?z ?z ?mu] by (simp add: wsum vnum)
  have div2: "map fl_sqrt (map2 fl_div (map (\<lambda>j. spec_var_num obs ws (spec_mean obs ws j) j) [0..<N])
                                       (map (spec_w_sum obs ws) [0..<N]))
                = map (spec_sigma obs ws) [0..<N]"
    by (intro nth_equalityI) (auto simp add: spec_sigma_def)
  have div2': "map (fl_sqrt \<circ> (\<lambda>(x, y). fl_div x y))
                 (zip (map (\<lambda>j. spec_var_num obs ws (spec_mean obs ws j) j) [0..<N])
                      (map (spec_w_sum obs ws) [0..<N]))
                = map (spec_sigma obs ws) [0..<N]"
    using div2 by simp
  show ?thesis
    unfolding fit_def Let_def ns
    by (simp add: loop1 div1 loop2 div2')
qed


lemmas fit_eval = fit_def Let_def getitem_def py_index_def np_dot_def col_def iadd_def
  sum_axis0_def fl_sum_def fl_sq_def fl_sub_def eps_def const_matrix_def one_state_model_def
  upt_rec numeral_2_eq_2

text \<open>
  Claim C4: for \<open>K\<close> trajectories and \<open>K\<close> matching weight matrices, \<^verbatim>\<open>fit\<close> sets
  \<open>means[i]\<close> to the weighted sum of the observations over the weight sum of the state,
  and then \<open>sigmas[i]\<close> to the square root of the weighted sum of the squared distances
  to that new mean over the weight sum. The sums, the quotients and the root are those of
  the floating-point arithmetic; the equations hold for every input, also whether or not
  the call ends with the fitting error.
\<close>

theorem fit_weighted_mle:
  assumes "n_states self = PyInt (int N)" and "fit_input_ok N obs ws" and "i < N"
  shows "length (means (snd (fit self obs ws))) = N
       \<and> length (sigmas (snd (fit self obs ws))) = N
       \<and> means (snd (fit self obs ws)) ! i
           = fl_div (spec_mean_num obs ws i) (spec_w_sum obs ws i)
       \<and> sigmas (snd (fit self obs ws)) ! i
           = fl_sqrt (fl_div (spec_var_num obs ws (means (snd (fit self obs ws)) ! i) i)
                             (spec_w_sum obs ws i))"
proof -
  have m: "means (snd (fit self obs ws)) = map (spec_mean obs ws) [0..<N]"
    and s: "sigmas (snd (fit self obs ws)) = map (spec_sigma obs ws) [0..<N]"
    using fit_result [OF assms(1,2)] by simp_all
  have mi: "means (snd (fit self obs ws)) ! i = spec_mean obs ws i"
    and si: "sigmas (snd (fit self obs ws)) ! i = spec_sigma obs ws i"
    using assms(3) by (simp_all add: m s)
  have v: "sigmas (snd (fit self obs ws)) ! i
           = fl_sqrt (fl_div (spec_var_num obs ws (means (snd (fit self obs ws)) ! i) i)
                             (spec_w_sum obs ws i))"
    unfolding mi si by (rule spec_sigma_def)
  have mi': "means (snd (fit self obs ws)) ! i
               = fl_div (spec_mean_num obs ws i) (spec_w_sum obs ws i)"
    unfolding mi by (rule spec_mean_def)
  have l: "length (means (snd (fit self obs ws))) = N"
    "length (sigmas (snd (fit self obs ws))) = N"
    by (simp_all add: m s)
  from l mi' v show ?thesis by (intro conjI)
qed

text \<open>
  Two states and two trajectories, \<open>0, 4\<close> and \<open>2\<close>. The second state has the weights
  \<open>2, 2\<close> and \<open>0\<close>: its weight sum is \<open>4\<close>, its weighted sum of observations \<open>8\<close>, its
  new mean \<open>2\<close>, the weighted sum of squares about that mean \<open>16\<close> and its sigma \<open>2\<close>.
  The first state, with the weights \<open>1, 1\<close> and \<open>6\<close>, gets the mean \<open>2\<close> and the sigma
  \<open>1\<close>.
\<close>

theorem fit_weighted_mle_witness:
  "fit_input_ok 2 [[Fin 0, Fin 4], [Fin 2]] [weights_a, weights_b]
   \<and> spec_w_sum [[Fin 0, Fin 4], [Fin 2]] [weights_a, weights_b] 1 = Fin 4
   \<and> spec_mean_num [[Fin 0, Fin 4], [Fin 2]] [weights_a, weights_b] 1 = Fin 8
   \<and> means (snd (fit two_state_model [[Fin 0, Fin 4], [Fin 2]] [weights_a, weights_b])) ! 1
       = Fin 2
   \<and> spec_var_num [[Fin 0, Fin 4], [Fin 2]] [weights_a, weights_b] (Fin 2) 1 = Fin 16
   \<and> sigmas (snd (fit two_state_model [[Fin 0, Fin 4], [Fin 2]] [weights_a, weights_b])) ! 1
       = Fin 2
   \<and> snd (fit two_state_model [[Fin 0, Fin 4], [Fin 2]] [weights_a, weights_b])
       = two_state_model\<lparr>means := [Fin 2, Fin 2], sigmas := [Fin 1, Fin 2]\<rparr>"
proof -
  let ?obs = "[[Fin 0, Fin 4], [Fin 2]]" and ?ws = "[weights_a, weights_b]"
  have ns: "n_states two_state_model = PyInt (int 2)" by (simp add: two_state_model_def)
  have ok: "fit_input_ok 2 ?obs ?ws"
    by (simp add: fit_input_ok_def weights_a_def weights_b_def upt_rec numeral_2_eq_2)
  have w: "spec_w_sum ?obs ?ws 1 = Fin 4"
    by (simp add: spec_w_sum_def fl_sum_def weights_a_def weights_b_def upt_rec numeral_2_eq_2)
  have n: "spec_mean_num ?obs ?ws 1 = Fin 8"
    by (simp add: spec_mean_num_def fl_sum_def weights_a_def weights_b_def upt_rec
        numeral_2_eq_2)
  have v: "spec_var_num ?obs ?ws (Fin 2) 1 = Fin 16"
    by (simp add: spec_var_num_def fl_sum_def fl_sq_def fl_sub_def weights_a_def weights_b_def
        upt_rec numeral_2_eq_2)
  have all: "snd (fit two_state_model ?obs ?ws)
               = two_state_model\<lparr>means := [Fin 2, Fin 2], sigmas := [Fin 1, Fin 2]\<rparr>"
    by (simp add: fit_eval two_state_model_def weights_a_def weights_b_def)
  have i: "(1::nat) < 2" by simp
  note t = fit_weighted_mle [OF ns ok i]
  from t have mu: "means (snd (fit two_state_model ?obs ?ws)) ! 1
                     = fl_div (spec_mean_num ?obs ?ws 1) (spec_w_sum ?obs ?ws 1)"
    by blast
  then have mu2: "means (snd (fit two_state_model ?obs ?ws)) ! 1 = Fin 2"
    unfolding n w by simp
  from t have "sigmas (snd (fit two_state_model ?obs ?ws)) ! 1
        = fl_sqrt (fl_div (spec_var_num ?obs ?ws (means (snd (fit two_state_model ?obs ?ws)) ! 1) 1)
                          (spec_w_sum ?obs ?ws 1))"
    by blast
  then have sg2: "sigmas (snd (fit two_state_model ?obs ?ws)) ! 1 = Fin 2"
    unfolding mu2 v w by simp
  from ok w n mu2 v sg2 all show ?thesis by (intro conjI)
qed

text \<open>
  Claim C2 says that \<^verbatim>\<open>fit\<close> raises the fitting error whenever a resulting sigma is
  below machine epsilon or is not finite. A state whose weights are all zero gets the
  mean \<open>0 / 0\<close> and a sigma that is NaN; NaN does not compare below epsilon, and the
  call returns with the NaN stored.
\<close>

theorem fit_nan_sigma_stored_counterexample:
  "fst (fit one_state_model [[Fin 1]] [const_matrix 1 1 (Fin 0)]) = Inr ()
   \<and> sigmas (snd (fit one_state_model [[Fin 1]] [const_matrix 1 1 (Fin 0)])) = [NaN]
   \<and> \<not> is_finite NaN"
  by (simp add: fit_eval)

text \<open>
  Claim C2 as amended: on matching input, \<^verbatim>\<open>fit\<close> raises the fitting error exactly
  when some resulting sigma compares below machine epsilon, and returns normally
  otherwise; in particular it returns normally when every resulting sigma is finite and
  at least machine epsilon.
\<close>

theorem fit_raises_iff_sigma_below_eps:
  assumes "n_states self = PyInt (int N)" and "fit_input_ok N obs ws"
  shows "fst (fit self obs ws)
           = (if list_ex (\<lambda>s. fl_less s (Fin eps)) (sigmas (snd (fit self obs ws)))
              then Inl RuntimeError else Inr ())
       \<and> (list_all (\<lambda>s. is_finite s \<and> \<not> fl_less s (Fin eps)) (sigmas (snd (fit self obs ws)))
            \<longrightarrow> fst (fit self obs ws) = Inr ())"
  using fit_result [OF assms] by (auto simp add: list_all_iff list_ex_iff)

theorem fit_raises_iff_sigma_below_eps_witness:
  "fit_input_ok 1 [[Fin 1, Fin 3]] [const_matrix 2 1 (Fin 1)]
   \<and> sigmas (snd (fit one_state_model [[Fin 1, Fin 3]] [const_matrix 2 1 (Fin 1)])) = [Fin 1]
   \<and> fst (fit one_state_model [[Fin 1, Fin 3]] [const_matrix 2 1 (Fin 1)]) = Inr ()
   \<and> fit_input_ok 1 [[Fin 1, Fin 1]] [const_matrix 2 1 (Fin 1)]
   \<and> sigmas (snd (fit one_state_model [[Fin 1, Fin 1]] [const_matrix 2 1 (Fin 1)])) = [Fin 0]
   \<and> fst (fit one_state_model [[Fin 1, Fin 1]] [const_matrix 2 1 (Fin 1)]) = Inl RuntimeError"
proof -
  have ns: "n_states one_state_model = PyInt (int 1)" by (simp add: one_state_model_def)
  have ok1: "fit_input_ok 1 [[Fin 1, Fin 3]] [const_matrix 2 1 (Fin 1)]"
    and ok2: "fit_input_ok 1 [[Fin 1, Fin 1]] [const_matrix 2 1 (Fin 1)]"
    by (simp_all add: fit_input_ok_def const_matrix_def)
  have s1: "sigmas (snd (fit one_state_model [[Fin 1, Fin 3]] [const_matrix 2 1 (Fin 1)])) = [Fin 1]"
    by (simp add: fit_eval)
  have s2: "sigmas (snd (fit one_state_model [[Fin 1, Fin 1]] [const_matrix 2 1 (Fin 1)])) = [Fin 0]"
    by (simp add: fit_eval)
  from fit_raises_iff_sigma_below_eps [OF ns ok1, unfolded s1]
  have a: "fst (fit one_state_model [[Fin 1, Fin 3]] [const_matrix 2 1 (Fin 1)]) = Inr ()"
    by (simp add: eps_def)
  from fit_raises_iff_sigma_below_eps [OF ns ok2, unfolded s2]
  have b: "fst (fit one_state_model [[Fin 1, Fin 1]] [const_matrix 2 1 (Fin 1)])
             = Inl RuntimeError"
    by (simp add: eps_def)
  from ok1 s1 a ok2 s2 b show ?thesis by (intro conjI)
qed

text \<open>
  Claim C3 says that when \<^verbatim>\<open>fit\<close> raises, the means and sigmas are those of before the
  call. The arrays are assigned before the check: on two equal observations the call
  raises and leaves the mean \<open>1\<close> and the sigma \<open>0\<close> where \<open>0\<close> and \<open>1\<close> were.
\<close>

theorem fit_error_changes_model_counterexample:
  "fst (fit one_state_model [[Fin 1, Fin 1]] [const_matrix 2 1 (Fin 1)]) = Inl RuntimeError
   \<and> means one_state_model = [Fin 0] \<and> sigmas one_state_model = [Fin 1]
   \<and> means (snd (fit one_state_model [[Fin 1, Fin 1]] [const_matrix 2 1 (Fin 1)])) = [Fin 1]
   \<and> sigmas (snd (fit one_state_model [[Fin 1, Fin 1]] [const_matrix 2 1 (Fin 1)])) = [Fin 0]"
  by (simp add: fit_eval)

text \<open>
  Claim C3 as amended: when \<^verbatim>\<open>fit\<close> raises the fitting error on matching input, the
  model holds the newly fitted means and sigmas, one of the sigmas below machine
  epsilon; nothing is rolled back.
\<close>

theorem fit_error_keeps_new_values:
  assumes "n_states self = PyInt (int N)" and "fit_input_ok N obs ws"
    and "fst (fit self obs ws) = Inl RuntimeError"
  shows "snd (fit self obs ws)
           = self\<lparr>means := map (spec_mean obs ws) [0..<N],
                  sigmas := map (spec_sigma obs ws) [0..<N]\<rparr>
       \<and> list_ex (\<lambda>s. fl_less s (Fin eps)) (sigmas (snd (fit self obs ws)))"
  using fit_result [OF assms(1,2)] assms(3) by (auto split: if_splits)

theorem fit_error_keeps_new_values_witness:
  "fit_input_ok 1 [[Fin 1, Fin 1]] [const_matrix 2 1 (Fin 1)]
   \<and> fst (fit one_state_model [[Fin 1, Fin 1]] [const_matrix 2 1 (Fin 1)]) = Inl RuntimeError
   \<and> snd (fit one_state_model [[Fin 1, Fin 1]] [const_matrix 2 1 (Fin 1)])
       = one_state_model\<lparr>means := [Fin 1], sigmas := [Fin 0]\<rparr>
   \<and> list_ex (\<lambda>s. fl_less s (Fin eps))
       (sigmas (snd (fit one_state_model [[Fin 1, Fin 1]] [const_matrix 2 1 (Fin 1)])))"
proof -
  have ns: "n_states one_state_model = PyInt (int 1)" by (simp add: one_state_model_def)
  have ok: "fit_input_ok 1 [[Fin 1, Fin 1]] [const_matrix 2 1 (Fin 1)]"
    by (simp add: fit_input_ok_def const_matrix_def)
  have r: "fst (fit one_state_model [[Fin 1, Fin 1]] [const_matrix 2 1 (Fin 1)]) = Inl RuntimeError"
    by (simp add: fit_eval)
  have v: "snd (fit one_state_model [[Fin 1, Fin 1]] [const_matrix 2 1 (Fin 1)])
       = one_state_model\<lparr>means := [Fin 1], sigmas := [Fin 0]\<rparr>"
    by (simp add: fit_eval)
  from fit_error_keeps_new_values [OF ns ok r]
  have e: "list_ex (\<lambda>s. fl_less s (Fin eps))
             (sigmas (snd (fit one_state_model [[Fin 1, Fin 1]] [const_matrix 2 1 (Fin 1)])))"
    by (rule conjunct2)
  from ok r v e show ?thesis by (intro conjI)
qed

section \<open>Generation\<close>

text \<open>
  With state indices in range, the loop of \<^verbatim>\<open>generate_observation_trajectory\<close> fills
  one entry for every time step, from one variate each, and raises nothing.
\<close>

lemma getitem_valid: "valid_index (length xs) i \<Longrightarrow> getitem xs i = Inr (py_at xs i)"
  by (auto simp add: getitem_def py_index_def py_at_def valid_index_def)

lemma getitem_invalid: "\<not> valid_index (length xs) i \<Longrightarrow> getitem xs i = Inl IndexError"
  by (auto simp add: getitem_def py_index_def valid_index_def)

lemma generate_one:
  assumes "length (means (obj w)) = N" and "length (sigmas (obj w)) = N" and "valid_index N s"
  shows "generate_observation_from_state s w
           = (Inr (spec_emission (obj w) s (shd (rng w))), w\<lparr>rng := stl (rng w)\<rparr>)"
  using assms by (simp add: generate_observation_from_state_def getitem_valid spec_emission_def)

lemma trajectory_loop_ok:
  assumes "length (means (obj w)) = N" and "length (sigmas (obj w)) = N"
    and "list_all (valid_index N) s_t" and "length o_t = length s_t" and "a \<le> length s_t"
    and "n = length s_t - a"
  shows "trajectory_loop s_t [a..<length s_t] o_t w =
           (Inr (map (\<lambda>t. if t < a then o_t ! t
                          else spec_emission (obj w) (s_t ! t) (rng w !! (t - a)))
                   [0..<length s_t]),
            w\<lparr>rng := sdrop (length s_t - a) (rng w)\<rparr>)"
  using assms
proof (induction n arbitrary: a o_t w)
  case 0
  then have a: "a = length s_t" by simp
  have "map (\<lambda>t. if t < a then o_t ! t
                 else spec_emission (obj w) (s_t ! t) (rng w !! (t - a))) [0..<length s_t]
          = map ((!) o_t) [0..<length s_t]"
    using a by (intro map_cong [OF refl]) simp
  also have "\<dots> = o_t" using 0(4) by (simp add: map_nth_len)
  finally show ?case using a by simp
next
  case (Suc n)
  let ?T = "length s_t"
  have a: "a < ?T" using Suc.prems by simp
  then have v: "valid_index N (s_t ! a)" using Suc.prems(3) by (simp add: list_all_length)
  let ?x = "spec_emission (obj w) (s_t ! a) (shd (rng w))"
  let ?w1 = "w\<lparr>rng := stl (rng w)\<rparr>"
  let ?o1 = "o_t[a := ?x]"
  have step: "trajectory_loop s_t [a..<?T] o_t w = trajectory_loop s_t [Suc a..<?T] ?o1 ?w1"
    using a v Suc.prems(1,2)
    by (simp add: upt_conv_Cons getitem_valid spec_emission_def Let_def)
  have ih: "trajectory_loop s_t [Suc a..<?T] ?o1 ?w1 =
           (Inr (map (\<lambda>t. if t < Suc a then ?o1 ! t
                          else spec_emission (obj ?w1) (s_t ! t) (rng ?w1 !! (t - Suc a)))
                   [0..<?T]),
            ?w1\<lparr>rng := sdrop (?T - Suc a) (rng ?w1)\<rparr>)"
    using Suc.prems a by (intro Suc.IH) auto
  have m: "map (\<lambda>t. if t < Suc a then ?o1 ! t
                          else spec_emission (obj ?w1) (s_t ! t) (rng ?w1 !! (t - Suc a))) [0..<?T]
         = map (\<lambda>t. if t < a then o_t ! t
                          else spec_emission (obj w) (s_t ! t) (rng w !! (t - a))) [0..<?T]"
  proof (rule map_cong [OF refl])
    fix t assume "t \<in> set [0..<?T]"
    then have t: "t < ?T" by simp
    consider "t < a" | "t = a" | "a < t" by linarith
    then show "(if t < Suc a then ?o1 ! t
                 else spec_emission (obj ?w1) (s_t ! t) (rng ?w1 !! (t - Suc a)))
             = (if t < a then o_t ! t else spec_emission (obj w) (s_t ! t) (rng w !! (t - a)))"
    proof cases
      case 1 then show ?thesis by simp
    next
      case 2 then show ?thesis using a Suc.prems(4) by simp
    next
      case 3
      then obtain d where "t - a = Suc d" and "t - Suc a = d"
        by (metis Suc_diff_Suc)
      with 3 show ?thesis by simp
    qed
  qed
  have r: "?w1\<lparr>rng := sdrop (?T - Suc a) (rng ?w1)\<rparr> = w\<lparr>rng := sdrop (?T - a) (rng w)\<rparr>"
  proof -
    have "?T - a = Suc (?T - Suc a)" using a by simp
    then have "sdrop (?T - a) (rng w) = sdrop (?T - Suc a) (stl (rng w))" by simp
    then show ?thesis by simp
  qed
  show ?case unfolding step ih m r ..
qed

lemma trajectory_ok:
  assumes "length (means (obj w)) = N" and "length (sigmas (obj w)) = N"
    and "list_all (valid_index N) s_t"
  shows "generate_observation_trajectory s_t w =
           (Inr (map (\<lambda>t. spec_emission (obj w) (s_t ! t) (rng w !! t)) [0..<length s_t]),
            w\<lparr>rng := sdrop (length s_t) (rng w)\<rparr>)"
  using trajectory_loop_ok [OF assms, of "replicate (length s_t) (Fin 0)" 0 "length s_t"]
  by (simp add: generate_observation_trajectory_def Let_def)

lemma trajectory_loop_obj: "obj (snd (trajectory_loop s_t ts o_t w)) = obj w"
proof (induction ts arbitrary: o_t w)
  case Nil
  then show ?case by simp
next
  case (Cons t ts)
  show ?case
  proof (cases "getitem (sigmas (obj w)) (s_t ! t)")
    case (Inl e)
    then show ?thesis by simp
  next
    case sg: (Inr sg)
    show ?thesis
    proof (cases "getitem (means (obj w)) (s_t ! t)")
      case (Inl e)
      with sg show ?thesis by simp
    next
      case (Inr m)
      with sg show ?thesis by (simp add: Cons.IH)
    qed
  qed
qed

text \<open>
  Claim C9: for a sequence \<^verbatim>\<open>s_t\<close> of \<open>T\<close> state indices,
  \<^verbatim>\<open>generate_observation_trajectory\<close> returns an array of length \<open>T\<close> whose entry at the
  time \<open>t\<close> is \<open>sigmas[s_t[t]] \<cdot> Z\<^sub>t + means[s_t[t]]\<close>, with \<open>Z\<^sub>t\<close> the variate number \<open>t\<close> of
  the generator since the call, a fresh one for every time step; it is the value
  \<^verbatim>\<open>generate_observation_from_state\<close> returns for that state and that variate. None of
  the three generation operations changes the model, whatever the arguments and also when
  the call raises.
\<close>

theorem generation_reads_only:
  assumes "length (means (obj w)) = N" and "length (sigmas (obj w)) = N"
    and "list_all (valid_index N) s_t"
  shows "generate_observation_trajectory s_t w =
           (Inr (map (\<lambda>t. spec_emission (obj w) (s_t ! t) (rng w !! t)) [0..<length s_t]),
            w\<lparr>rng := sdrop (length s_t) (rng w)\<rparr>)
       \<and> (\<forall>t<length s_t.
             generate_observation_from_state (s_t ! t) (w\<lparr>rng := sdrop t (rng w)\<rparr>)
               = (Inr (spec_emission (obj w) (s_t ! t) (rng w !! t)),
                  w\<lparr>rng := sdrop (Suc t) (rng w)\<rparr>))
       \<and> obj (snd (generate_observation_trajectory s' w')) = obj w'
       \<and> obj (snd (generate_observation_from_state i' w')) = obj w'
       \<and> obj (snd (generate_observations_from_state i' n' w')) = obj w'"
proof -
  have one: "\<forall>t<length s_t.
             generate_observation_from_state (s_t ! t) (w\<lparr>rng := sdrop t (rng w)\<rparr>)
               = (Inr (spec_emission (obj w) (s_t ! t) (rng w !! t)),
                  w\<lparr>rng := sdrop (Suc t) (rng w)\<rparr>)"
  proof (intro allI impI)
    fix t assume t: "t < length s_t"
    then have v: "valid_index N (s_t ! t)" using assms(3) by (simp add: list_all_length)
    have "generate_observation_from_state (s_t ! t) (w\<lparr>rng := sdrop t (rng w)\<rparr>)
            = (Inr (spec_emission (obj (w\<lparr>rng := sdrop t (rng w)\<rparr>)) (s_t ! t)
                      (shd (rng (w\<lparr>rng := sdrop t (rng w)\<rparr>)))),
               (w\<lparr>rng := sdrop t (rng w)\<rparr>)\<lparr>rng := stl (rng (w\<lparr>rng := sdrop t (rng w)\<rparr>))\<rparr>)"
      using assms(1,2) v by (intro generate_one [of _ N]) simp_all
    then show "generate_observation_from_state (s_t ! t) (w\<lparr>rng := sdrop t (rng w)\<rparr>)
               = (Inr (spec_emission (obj w) (s_t ! t) (rng w !! t)),
                  w\<lparr>rng := sdrop (Suc t) (rng w)\<rparr>)"
      by simp
  qed
  have f1: "obj (snd (generate_observation_trajectory s' w')) = obj w'"
    by (simp add: generate_observation_trajectory_def Let_def trajectory_loop_obj)
  have f2: "obj (snd (generate_observation_from_state i' w')) = obj w'"
    by (simp add: generate_observation_from_state_def Let_def split: sum.splits)
  have f3: "obj (snd (generate_observations_from_state i' n' w')) = obj w'"
    by (simp add: generate_observations_from_state_def Let_def split: sum.splits)
  from trajectory_ok [OF assms] one f1 f2 f3 show ?thesis by (intro conjI)
qed

text \<open>
  Three states, the state sequence \<open>0, 2, -1\<close> and the variates \<open>1, 2, 3\<close>: the
  observations are \<open>1 \<cdot> 1 - 1\<close>, \<open>3 \<cdot> 2 + 1\<close> and \<open>3 \<cdot> 3 + 1\<close>.
\<close>

theorem generation_reads_only_witness:
  "length (means (obj three_state_world)) = 3
   \<and> length (sigmas (obj three_state_world)) = 3
   \<and> list_all (valid_index 3) [0, 2, - 1]
   \<and> generate_observation_trajectory [0, 2, - 1] three_state_world
       = (Inr [Fin 0, Fin 7, Fin 10], three_state_world\<lparr>rng := sconst 0\<rparr>)"
proof -
  have l: "length (means (obj three_state_world)) = 3"
    "length (sigmas (obj three_state_world)) = 3"
    by (simp_all add: three_state_world_def)
  have v: "list_all (valid_index 3) [0, 2, - 1]" by (simp add: valid_index_def)
  have e: "map (\<lambda>t. spec_emission (obj three_state_world) ([0, 2, - 1] ! t)
                  (rng three_state_world !! t)) [0..<length [0, 2, - 1 :: int]]
             = [Fin 0, Fin 7, Fin 10]"
    by (simp add: spec_emission_def py_at_def three_state_world_def upt_rec numeral_3_eq_3
        numeral_2_eq_2)
  have r: "three_state_world\<lparr>rng := sdrop (length [0, 2, - 1 :: int]) (rng three_state_world)\<rparr>
             = three_state_world\<lparr>rng := sconst 0\<rparr>"
    by (simp add: three_state_world_def numeral_3_eq_3)
  from generation_reads_only [OF l v]
  have "generate_observation_trajectory [0, 2, - 1] three_state_world
       = (Inr [Fin 0, Fin 7, Fin 10], three_state_world\<lparr>rng := sconst 0\<rparr>)"
    unfolding e r by (rule conjunct1)
  with l v show ?thesis by (intro conjI)
qed

section \<open>Sampling\<close>

text \<open>
  One pass of the loop of \<^verbatim>\<open>sample\<close> over a state with no, with one and with more
  observations.
\<close>

lemma setitem_nat [simp]: "k < length xs \<Longrightarrow> setitem xs (int k) v = Inr (xs[k := v])"
  by (simp add: setitem_def py_index_def)

lemma sample_state_none:
  assumes "i < length obs" and "obs ! i = []"
  shows "sample_state obs i w = (Inr (), w\<lparr>warned := warned w @ [i]\<rparr>)"
  using assms by (simp add: sample_state_def)

lemma sample_state_one:
  assumes "world_ok N w" and "i < N" and "i < length obs" and "length (obs ! i) = 1"
  shows "sample_state obs i w =
           (Inr (),
            w\<lparr>rng := stl (rng w),
              obj := (obj w)\<lparr>means := (means (obj w))
                [i := spec_new_mean (shd (rng w)) (sigmas (obj w) ! i) (obs ! i)]\<rparr>\<rparr>)"
  using assms
  by (auto simp add: sample_state_def sample_mu_def world_ok_def spec_new_mean_def Let_def)

lemma sample_state_many:
  assumes "world_ok N w" and "i < N" and "i < length obs" and "1 < length (obs ! i)"
  shows "sample_state obs i w =
           (Inr (),
            w\<lparr>rng := stl (stl (rng w)),
              obj := (obj w)\<lparr>
                means := (means (obj w))
                  [i := spec_new_mean (shd (rng w)) (sigmas (obj w) ! i) (obs ! i)],
                sigmas := (sigmas (obj w))
                  [i := spec_new_sigma (shd (stl (rng w)))
                          (spec_new_mean (shd (rng w)) (sigmas (obj w) ! i) (obs ! i))
                          (obs ! i)]\<rparr>\<rparr>)"
  using assms
  by (auto simp add: sample_state_def sample_mu_def sample_sigma_def world_ok_def
      spec_new_mean_def spec_new_sigma_def Let_def)

text \<open>
  A pass does not raise, keeps the lengths of the arrays, leaves the entries of the other
  states alone and drops no warning; and so does the loop.
\<close>

lemma sample_state_effect:
  assumes "world_ok N w" and "i < N" and "i < length obs"
  shows "fst (sample_state obs i w) = Inr ()"
    and "world_ok N (snd (sample_state obs i w))"
    and "j \<noteq> i \<Longrightarrow> means (obj (snd (sample_state obs i w))) ! j = means (obj w) ! j"
    and "j \<noteq> i \<Longrightarrow> sigmas (obj (snd (sample_state obs i w))) ! j = sigmas (obj w) ! j"
    and "set (warned w) \<subseteq> set (warned (snd (sample_state obs i w)))"
proof -
  consider "obs ! i = []" | "length (obs ! i) = 1" | "1 < length (obs ! i)"
    by (cases "obs ! i") (auto simp add: less_Suc_eq_0_disj)
  then have "fst (sample_state obs i w) = Inr ()
    \<and> world_ok N (snd (sample_state obs i w))
    \<and> (j \<noteq> i \<longrightarrow> means (obj (snd (sample_state obs i w))) ! j = means (obj w) ! j)
    \<and> (j \<noteq> i \<longrightarrow> sigmas (obj (snd (sample_state obs i w))) ! j = sigmas (obj w) ! j)
    \<and> set (warned w) \<subseteq> set (warned (snd (sample_state obs i w)))"
  proof cases
    case 1
    then show ?thesis using assms by (auto simp add: sample_state_none world_ok_def)
  next
    case 2
    then show ?thesis
      using assms by (auto simp add: sample_state_one [OF assms] world_ok_def)
  next
    case 3
    then show ?thesis
      using assms by (auto simp add: sample_state_many [OF assms] world_ok_def)
  qed
  then show "fst (sample_state obs i w) = Inr ()"
    and "world_ok N (snd (sample_state obs i w))"
    and "j \<noteq> i \<Longrightarrow> means (obj (snd (sample_state obs i w))) ! j = means (obj w) ! j"
    and "j \<noteq> i \<Longrightarrow> sigmas (obj (snd (sample_state obs i w))) ! j = sigmas (obj w) ! j"
    and "set (warned w) \<subseteq> set (warned (snd (sample_state obs i w)))"
    by blast+
qed

lemma sample_loop_effect:
  assumes "world_ok N w" and "\<forall>i\<in>set is. i < N \<and> i < length obs"
  shows "fst (sample_loop obs is w) = Inr ()
       \<and> world_ok N (snd (sample_loop obs is w))
       \<and> (j \<notin> set is \<longrightarrow> means (obj (snd (sample_loop obs is w))) ! j = means (obj w) ! j
                          \<and> sigmas (obj (snd (sample_loop obs is w))) ! j = sigmas (obj w) ! j)
       \<and> set (warned w) \<subseteq> set (warned (snd (sample_loop obs is w)))"
  using assms
proof (induction "is" arbitrary: w)
  case Nil
  then show ?case by simp
next
  case (Cons i "is")
  have i: "i < N" "i < length obs" using Cons.prems(2) by auto
  obtain w1 where s: "sample_state obs i w = (Inr (), w1)"
    using sample_state_effect(1) [OF Cons.prems(1) i] by (cases "sample_state obs i w") auto
  let ?w1 = w1
  let ?w2 = "snd (sample_loop obs is ?w1)"
  note e = sample_state_effect [OF Cons.prems(1) i, unfolded s snd_conv fst_conv]
  have step: "sample_loop obs (i # is) w = sample_loop obs is ?w1"
    by (simp add: s)
  have r: "\<forall>i\<in>set is. i < N \<and> i < length obs" using Cons.prems(2) by simp
  note ih = Cons.IH [OF e(2) r]
  have a: "fst (sample_loop obs is ?w1) = Inr ()" and b: "world_ok N ?w2"
    and d: "set (warned ?w1) \<subseteq> set (warned ?w2)"
    using ih by blast+
  have c: "j \<notin> set (i # is) \<longrightarrow> means (obj ?w2) ! j = means (obj w) ! j
                          \<and> sigmas (obj ?w2) ! j = sigmas (obj w) ! j"
  proof
    assume "j \<notin> set (i # is)"
    then have ji: "j \<noteq> i" and js: "j \<notin> set is" by simp_all
    from ih js have "means (obj ?w2) ! j = means (obj ?w1) ! j"
      and "sigmas (obj ?w2) ! j = sigmas (obj ?w1) ! j" by blast+
    with e(3) [OF ji] e(4) [OF ji]
    show "means (obj ?w2) ! j = means (obj w) ! j \<and> sigmas (obj ?w2) ! j = sigmas (obj w) ! j"
      by simp
  qed
  have d': "set (warned w) \<subseteq> set (warned ?w2)" using e(5) d by blast
  show ?case unfolding step using a b c d' by (intro conjI)
qed

lemma sample_loop_append:
  assumes "fst (sample_loop obs xs w) = Inr ()"
  shows "sample_loop obs (xs @ ys) w = sample_loop obs ys (snd (sample_loop obs xs w))"
  using assms
proof (induction xs arbitrary: w)
  case Nil
  then show ?case by simp
next
  case (Cons i xs)
  show ?case
  proof (cases "sample_state obs i w")
    case (Pair r w1)
    show ?thesis
    proof (cases r)
      case (Inl e)
      with Pair Cons.prems show ?thesis by simp
    next
      case (Inr u)
      with Pair Cons.prems have "fst (sample_loop obs xs w1) = Inr ()" by simp
      from Cons.IH [OF this] Pair Inr show ?thesis by simp
    qed
  qed
qed

text \<open>
  The warnings recorded so far have no influence on what a pass does to the model and to
  the generator.
\<close>

lemma sample_mu_warned:
  "sample_mu xs i (w\<lparr>warned := x\<rparr>)
     = (fst (sample_mu xs i w), (snd (sample_mu xs i w))\<lparr>warned := x\<rparr>)"
  by (simp add: sample_mu_def Let_def split: sum.splits)

lemma sample_sigma_warned:
  "sample_sigma xs i (w\<lparr>warned := x\<rparr>)
     = (fst (sample_sigma xs i w), (snd (sample_sigma xs i w))\<lparr>warned := x\<rparr>)"
  by (simp add: sample_sigma_def Let_def split: sum.splits)

lemma sample_state_warned:
  "\<exists>y. sample_state obs i (w\<lparr>warned := x\<rparr>)
         = (fst (sample_state obs i w), (snd (sample_state obs i w))\<lparr>warned := y\<rparr>)"
proof (cases "getitem obs (int i)")
  case (Inl e)
  then have "sample_state obs i (w\<lparr>warned := x\<rparr>)
         = (fst (sample_state obs i w), (snd (sample_state obs i w))\<lparr>warned := x\<rparr>)"
    by (simp add: sample_state_def)
  then show ?thesis by blast
next
  case (Inr xs)
  show ?thesis
  proof (cases "xs = []")
    case True
    with Inr have "sample_state obs i (w\<lparr>warned := x\<rparr>)
         = (fst (sample_state obs i w), (snd (sample_state obs i w))\<lparr>warned := x @ [i]\<rparr>)"
      by (simp add: sample_state_def)
    then show ?thesis by blast
  next
    case False
    then have n: "0 < length xs" by simp
    obtain r w2 where p: "sample_mu xs i w = (r, w2)" by (cases "sample_mu xs i w")
    then have pw: "sample_mu xs i (w\<lparr>warned := x\<rparr>) = (r, w2\<lparr>warned := x\<rparr>)"
      by (simp add: sample_mu_warned)
    show ?thesis
    proof (cases r)
      case (Inl e)
      with Inr n p pw have "sample_state obs i (w\<lparr>warned := x\<rparr>)
         = (fst (sample_state obs i w), (snd (sample_state obs i w))\<lparr>warned := x\<rparr>)"
        by (simp add: sample_state_def Let_def)
      then show ?thesis by blast
    next
      case u: (Inr u)
      show ?thesis
      proof (cases "1 < length xs")
        case True
        obtain r' w3 where q: "sample_sigma xs i w2 = (r', w3)"
          by (cases "sample_sigma xs i w2")
        then have qw: "sample_sigma xs i (w2\<lparr>warned := x\<rparr>) = (r', w3\<lparr>warned := x\<rparr>)"
          by (simp add: sample_sigma_warned)
        from Inr n p pw u True q qw have "sample_state obs i (w\<lparr>warned := x\<rparr>)
         = (fst (sample_state obs i w), (snd (sample_state obs i w))\<lparr>warned := x\<rparr>)"
          by (simp add: sample_state_def Let_def)
        then show ?thesis by blast
      next
        case False
        with Inr n p pw u have "sample_state obs i (w\<lparr>warned := x\<rparr>)
         = (fst (sample_state obs i w), (snd (sample_state obs i w))\<lparr>warned := x\<rparr>)"
          by (simp add: sample_state_def Let_def)
        then show ?thesis by blast
      qed
    qed
  qed
qed

lemma sample_loop_warned:
  "\<exists>y. sample_loop obs is (w\<lparr>warned := x\<rparr>)
         = (fst (sample_loop obs is w), (snd (sample_loop obs is w))\<lparr>warned := y\<rparr>)"
proof (induction "is" arbitrary: w x)
  case Nil
  have "sample_loop obs [] (w\<lparr>warned := x\<rparr>)
         = (fst (sample_loop obs [] w), (snd (sample_loop obs [] w))\<lparr>warned := x\<rparr>)"
    by simp
  then show ?case by blast
next
  case (Cons i "is")
  obtain y where y: "sample_state obs i (w\<lparr>warned := x\<rparr>)
         = (fst (sample_state obs i w), (snd (sample_state obs i w))\<lparr>warned := y\<rparr>)"
    using sample_state_warned by blast
  show ?case
  proof (cases "sample_state obs i w")
    case p: (Pair r w1)
    show ?thesis
    proof (cases r)
      case (Inl e)
      with p y have "sample_loop obs (i # is) (w\<lparr>warned := x\<rparr>)
         = (fst (sample_loop obs (i # is) w), (snd (sample_loop obs (i # is) w))\<lparr>warned := y\<rparr>)"
        by simp
      then show ?thesis by blast
    next
      case (Inr u)
      obtain y' where "sample_loop obs is (w1\<lparr>warned := y\<rparr>)
         = (fst (sample_loop obs is w1), (snd (sample_loop obs is w1))\<lparr>warned := y'\<rparr>)"
        using Cons.IH by blast
      with p y Inr have "sample_loop obs (i # is) (w\<lparr>warned := x\<rparr>)
         = (fst (sample_loop obs (i # is) w), (snd (sample_loop obs (i # is) w))\<lparr>warned := y'\<rparr>)"
        by simp
      then show ?thesis by blast
    qed
  qed
qed

text \<open>
  The loop reaches the state \<open>s\<close> with the entries of \<open>s\<close> as they were at the call, and
  after the pass over \<open>s\<close> no later pass touches them.
\<close>

lemma sample_decompose:
  assumes ns: "n_states (obj w) = PyInt (int N)" and ok: "world_ok N w"
    and len: "N \<le> length obs" and s: "s < N"
  shows "fst (sample_loop obs [0..<s] w) = Inr ()"
    and "world_ok N (snd (sample_loop obs [0..<s] w))"
    and "means (obj (snd (sample_loop obs [0..<s] w))) ! s = means (obj w) ! s"
    and "sigmas (obj (snd (sample_loop obs [0..<s] w))) ! s = sigmas (obj w) ! s"
    and "fst (sample obs w) = Inr ()"
    and "sample obs w = sample_loop obs [Suc s..<N]
           (snd (sample_state obs s (snd (sample_loop obs [0..<s] w))))"
    and "means (obj (snd (sample obs w))) ! s
           = means (obj (snd (sample_state obs s (snd (sample_loop obs [0..<s] w))))) ! s"
    and "sigmas (obj (snd (sample obs w))) ! s
           = sigmas (obj (snd (sample_state obs s (snd (sample_loop obs [0..<s] w))))) ! s"
    and "set (warned (snd (sample_state obs s (snd (sample_loop obs [0..<s] w)))))
           \<subseteq> set (warned (snd (sample obs w)))"
proof -
  let ?w1 = "snd (sample_loop obs [0..<s] w)"
  have r1: "\<forall>i\<in>set [0..<s]. i < N \<and> i < length obs" using s len by auto
  note e1 = sample_loop_effect [OF ok r1, of s]
  show a1: "fst (sample_loop obs [0..<s] w) = Inr ()" using e1 by blast
  show ok1: "world_ok N ?w1" using e1 by blast
  show "means (obj ?w1) ! s = means (obj w) ! s" using e1 by simp
  show "sigmas (obj ?w1) ! s = sigmas (obj w) ! s" using e1 by simp
  have s': "s < length obs" using s len by simp
  obtain w2 where st: "sample_state obs s ?w1 = (Inr (), w2)"
    using sample_state_effect(1) [OF ok1 s s'] by (cases "sample_state obs s ?w1") auto
  note e2 = sample_state_effect [OF ok1 s s', unfolded st snd_conv fst_conv]
  have r3: "\<forall>i\<in>set [Suc s..<N]. i < N \<and> i < length obs" using len by auto
  note e3 = sample_loop_effect [OF e2(2) r3, of s]
  have split: "[0..<N] = [0..<s] @ s # [Suc s..<N]"
    using s by (metis less_imp_le_nat upt_add_eq_append upt_conv_Cons le0 le_add_diff_inverse)
  have "sample obs w = sample_loop obs ([0..<s] @ s # [Suc s..<N]) w"
    using ns split by (simp add: sample_def)
  also have "\<dots> = sample_loop obs (s # [Suc s..<N]) ?w1" by (rule sample_loop_append [OF a1])
  also have "\<dots> = sample_loop obs [Suc s..<N] w2" by (simp add: st)
  finally have eq: "sample obs w = sample_loop obs [Suc s..<N] w2" .
  then show "sample obs w = sample_loop obs [Suc s..<N] (snd (sample_state obs s ?w1))"
    by (simp add: st)
  show "fst (sample obs w) = Inr ()" unfolding eq using e3 by blast
  show "means (obj (snd (sample obs w))) ! s = means (obj (snd (sample_state obs s ?w1))) ! s"
    unfolding eq st snd_conv using e3 by simp
  show "sigmas (obj (snd (sample obs w))) ! s = sigmas (obj (snd (sample_state obs s ?w1))) ! s"
    unfolding eq st snd_conv using e3 by simp
  show "set (warned (snd (sample_state obs s ?w1))) \<subseteq> set (warned (snd (sample obs w)))"
    unfolding eq st snd_conv using e3 by blast
qed









lemmas sample_eval = sample_def sample_state_def sample_mu_def sample_sigma_def Let_def
  getitem_def setitem_def py_index_def np_mean_def fl_sum_def fl_sq_def fl_sub_def
  fl_of_nat_def upt_rec numeral_2_eq_2

text \<open>
  Claim C7: for a state with exactly one observation, \<^verbatim>\<open>sample\<close> sets the mean of the
  state to \<open>z \<cdot> sigma[state] / sqrt(1)\<close> plus the mean of the one observation, where \<open>z\<close>
  is the standard normal variate the generator returns when the loop reaches the state and
  \<open>sigma[state]\<close> the sigma of before the call, and leaves the sigma of the state
  unchanged. The call does not raise.
\<close>

theorem sample_one_observation:
  assumes "n_states (obj w) = PyInt (int N)" and "world_ok N w"
    and "N \<le> length obs" and "s < N" and "obs ! s = [x]"
  shows "fst (sample obs w) = Inr ()
       \<and> means (obj (snd (sample obs w))) ! s
           = fl_add (fl_div (fl_mul (Fin (shd (rng (snd (sample_loop obs [0..<s] w)))))
                                    (sigmas (obj w) ! s))
                            (fl_sqrt (fl_of_nat 1)))
                    (np_mean [x])
       \<and> sigmas (obj (snd (sample obs w))) ! s = sigmas (obj w) ! s"
proof -
  let ?w1 = "snd (sample_loop obs [0..<s] w)"
  note d = sample_decompose [OF assms(1-4)]
  have l: "length (obs ! s) = 1" using assms(5) by simp
  have s': "s < length obs" using assms(3,4) by simp
  note st = sample_state_one [OF d(2) assms(4) s' l]
  have sl: "s < length (means (obj ?w1))" using d(2) assms(4) by (simp add: world_ok_def)
  have m: "means (obj (snd (sample obs w))) ! s
             = spec_new_mean (shd (rng ?w1)) (sigmas (obj w) ! s) [x]"
    unfolding d(7) st snd_conv using sl by (simp add: d(4) assms(5))
  have g: "sigmas (obj (snd (sample obs w))) ! s = sigmas (obj w) ! s"
    unfolding d(8) st snd_conv by (simp add: d(4))
  from d(5) m g show ?thesis by (simp add: spec_new_mean_def)
qed

text \<open>
  Two states, the first with the one observation \<open>5\<close> and the sigma \<open>2\<close>, and the
  variate \<open>1\<close>: the mean becomes \<open>1 \<cdot> 2 / 1 + 5\<close>, the sigma stays \<open>2\<close>.
\<close>

theorem sample_one_observation_witness:
  "n_states (obj sample_world_a) = PyInt (int 2) \<and> world_ok 2 sample_world_a
   \<and> [[Fin 5], []] ! 0 = [Fin 5]
   \<and> fst (sample [[Fin 5], []] sample_world_a) = Inr ()
   \<and> means (obj (snd (sample [[Fin 5], []] sample_world_a))) ! 0 = Fin 7
   \<and> sigmas (obj (snd (sample [[Fin 5], []] sample_world_a))) ! 0 = Fin 2"
proof -
  have ns: "n_states (obj sample_world_a) = PyInt (int 2)"
    and ok: "world_ok 2 sample_world_a"
    by (simp_all add: sample_world_a_def world_ok_def)
  have len: "2 \<le> length [[Fin 5], []]" and s: "(0::nat) < 2"
    and ob: "[[Fin 5], []] ! 0 = [Fin 5]"
    by simp_all
  from sample_one_observation [OF ns ok len s ob] ns ok ob show ?thesis
    by (simp add: sample_eval sample_world_a_def)
qed

text \<open>
  Claim C8: for a state with no observation, \<^verbatim>\<open>sample\<close> records a warning that names
  the state, leaves its mean and sigma unchanged and returns normally; the model and the
  generator end as the loop over the other states alone leaves them, so the other states
  are updated as ever.
\<close>

theorem sample_no_observation:
  assumes "n_states (obj w) = PyInt (int N)" and "world_ok N w"
    and "N \<le> length obs" and "s < N" and "obs ! s = []"
  shows "fst (sample obs w) = Inr ()
       \<and> s \<in> set (warned (snd (sample obs w)))
       \<and> means (obj (snd (sample obs w))) ! s = means (obj w) ! s
       \<and> sigmas (obj (snd (sample obs w))) ! s = sigmas (obj w) ! s
       \<and> obj (snd (sample obs w)) = obj (snd (sample_loop obs ([0..<s] @ [Suc s..<N]) w))
       \<and> rng (snd (sample obs w)) = rng (snd (sample_loop obs ([0..<s] @ [Suc s..<N]) w))"
proof -
  let ?w1 = "snd (sample_loop obs [0..<s] w)"
  note d = sample_decompose [OF assms(1-4)]
  have s': "s < length obs" using assms(3,4) by simp
  note st = sample_state_none [OF s' assms(5), of ?w1]
  have wn: "s \<in> set (warned (snd (sample obs w)))"
    using d(9) unfolding st snd_conv by auto
  have m: "means (obj (snd (sample obs w))) ! s = means (obj w) ! s"
    unfolding d(7) st snd_conv by (simp add: d(3))
  have g: "sigmas (obj (snd (sample obs w))) ! s = sigmas (obj w) ! s"
    unfolding d(8) st snd_conv by (simp add: d(4))
  obtain y where y: "sample_loop obs [Suc s..<N] (?w1\<lparr>warned := warned ?w1 @ [s]\<rparr>)
         = (fst (sample_loop obs [Suc s..<N] ?w1),
            (snd (sample_loop obs [Suc s..<N] ?w1))\<lparr>warned := y\<rparr>)"
    using sample_loop_warned by blast
  have skip: "sample_loop obs ([0..<s] @ [Suc s..<N]) w = sample_loop obs [Suc s..<N] ?w1"
    by (rule sample_loop_append [OF d(1)])
  have o: "obj (snd (sample obs w)) = obj (snd (sample_loop obs ([0..<s] @ [Suc s..<N]) w))"
    and r: "rng (snd (sample obs w)) = rng (snd (sample_loop obs ([0..<s] @ [Suc s..<N]) w))"
    unfolding d(6) st snd_conv y skip by simp_all
  from d(5) wn m g o r show ?thesis by (intro conjI)
qed

text \<open>
  Two states, the second without observations: the call returns, the warning names the
  state \<open>1\<close>, its mean \<open>0\<close> and sigma \<open>3\<close> stay, and the first state gets its new
  mean \<open>7\<close>.
\<close>

theorem sample_no_observation_witness:
  "n_states (obj sample_world_a) = PyInt (int 2) \<and> world_ok 2 sample_world_a
   \<and> [[Fin 5], []] ! 1 = []
   \<and> fst (sample [[Fin 5], []] sample_world_a) = Inr ()
   \<and> warned (snd (sample [[Fin 5], []] sample_world_a)) = [1]
   \<and> means (obj (snd (sample [[Fin 5], []] sample_world_a))) = [Fin 7, Fin 0]
   \<and> sigmas (obj (snd (sample [[Fin 5], []] sample_world_a))) = [Fin 2, Fin 3]
   \<and> obj (snd (sample_loop [[Fin 5], []] ([0..<1] @ [Suc 1..<2]) sample_world_a))
       = (obj sample_world_a)\<lparr>means := [Fin 7, Fin 0]\<rparr>"
proof -
  have ns: "n_states (obj sample_world_a) = PyInt (int 2)"
    and ok: "world_ok 2 sample_world_a"
    by (simp_all add: sample_world_a_def world_ok_def)
  have len: "2 \<le> length [[Fin 5], []]" and s: "(1::nat) < 2"
    and ob: "[[Fin 5], []] ! 1 = []"
    by simp_all
  from sample_no_observation [OF ns ok len s ob] ns ok ob show ?thesis
    by (simp add: sample_eval sample_world_a_def)
qed




end
